theory Spec2Isabelle
  imports Complex_Main "HOL-Library.Word"
begin

section \<open>JavaScript strings, trim and the e-mail pattern\<close>

text \<open>
  A JavaScript string is a sequence of 16-bit code units. Field values, labels and banner
  texts are modelled as lists of code units; class names, attribute names and attribute
  values, which the script only compares with ASCII literals, are HOL strings.
  \<open>js\<close> turns an ASCII literal into its code units.
\<close>

type_synonym js_string = "16 word list"

definition js :: "string \<Rightarrow> js_string" where
  "js cs = map of_char cs"

text \<open>
  The characters removed by \<open>String.prototype.trim\<close> (WhiteSpace and LineTerminator of
  ECMAScript) are the characters matched by \<open>\s\<close> in a regular expression: TAB, LF, VT,
  FF, CR, SPACE, NBSP, U+1680, U+2000..U+200A, U+2028, U+2029, U+202F, U+205F, U+3000
  and U+FEFF.
\<close>

definition is_space :: "16 word \<Rightarrow> bool" where
  "is_space c =
     (c = 0x09 \<or> c = 0x0A \<or> c = 0x0B \<or> c = 0x0C \<or> c = 0x0D \<or> c = 0x20 \<or> c = 0xA0 \<or>
      c = 0x1680 \<or> (0x2000 \<le> c \<and> c \<le> 0x200A) \<or> c = 0x2028 \<or> c = 0x2029 \<or>
      c = 0x202F \<or> c = 0x205F \<or> c = 0x3000 \<or> c = 0xFEFF)"

definition trim :: "js_string \<Rightarrow> js_string" where
  "trim v = rev (dropWhile is_space (rev (dropWhile is_space v)))"

text \<open>
  The pattern of line 91, \<^verbatim>\<open>/^[^\s@]+@[^\s@]+\.[^\s@]+$/\<close>, is a sequence of character
  classes, each taken once or one-or-more times, anchored at both ends of the input.
  \<open>regex_test\<close> is the backtracking match of such a sequence against the whole input,
  which is what \<open>RegExp.prototype.test\<close> decides for an anchored pattern.
\<close>

datatype char_class = Literal "16 word" | NotSpaceNor "16 word"

fun in_class :: "char_class \<Rightarrow> 16 word \<Rightarrow> bool" where
  "in_class (Literal c) x = (x = c)"
| "in_class (NotSpaceNor c) x = (\<not> is_space x \<and> x \<noteq> c)"

datatype item = One char_class | OneOrMore char_class

fun regex_test :: "item list \<Rightarrow> js_string \<Rightarrow> bool" where
  "regex_test [] v = (v = [])"
| "regex_test (One c # r) [] = False"
| "regex_test (One c # r) (x # xs) = (in_class c x \<and> regex_test r xs)"
| "regex_test (OneOrMore c # r) [] = False"
| "regex_test (OneOrMore c # r) (x # xs) =
     (in_class c x \<and> (regex_test (OneOrMore c # r) xs \<or> regex_test r xs))"

definition email_pattern :: "item list" where
  "email_pattern =
     [OneOrMore (NotSpaceNor 0x40), One (Literal 0x40),
      OneOrMore (NotSpaceNor 0x40), One (Literal 0x2E),
      OneOrMore (NotSpaceNor 0x40)]"

text \<open>
  The shape of an address in the words of the specification: a non-empty run of
  characters that are neither space nor \<open>@\<close>, then \<open>@\<close>, then such a run, then a dot,
  then such a run. This definition is the specification's side of the comparison; the
  code's side is \<open>regex_test email_pattern\<close>.
\<close>

definition email_shape :: "js_string \<Rightarrow> bool" where
  "email_shape v =
     (\<exists>l d t. v = l @ [0x40] @ d @ [0x2E] @ t \<and> l \<noteq> [] \<and> d \<noteq> [] \<and> t \<noteq> [] \<and>
        (\<forall>x \<in> set (l @ d @ t). \<not> is_space x \<and> x \<noteq> 0x40))"

text \<open>The part of an address after its first \<open>@\<close>.\<close>

definition domain_part :: "js_string \<Rightarrow> js_string" where
  "domain_part v = tl (dropWhile (\<lambda>x. x \<noteq> 0x40) v)"


section \<open>The page and its mutable state\<close>

text \<open>
  Elements are identified by numbers. The mutable part of the document is a store that
  maps each element to its class list, attributes, text content, value and disabled flag;
  two names of the script that denote the same element share these entries. The set of
  targets of the intersection observer is part of the state as well.
  A class list is modelled as the set of its tokens; the order of the tokens, which no
  statement of the script reads, is not kept.
\<close>

type_synonym elem = nat

record state =
  classList :: "elem \<Rightarrow> string set"
  attribute :: "elem \<Rightarrow> string \<Rightarrow> string option"
  textContent :: "elem \<Rightarrow> js_string"
  value_of :: "elem \<Rightarrow> js_string"
  disabled :: "elem \<Rightarrow> bool"
  observed :: "elem set"

definition classList_add :: "elem \<Rightarrow> string \<Rightarrow> state \<Rightarrow> state" where
  "classList_add e c s = s\<lparr>classList := (classList s)(e := insert c (classList s e))\<rparr>"

definition classList_remove :: "elem \<Rightarrow> string \<Rightarrow> state \<Rightarrow> state" where
  "classList_remove e c s = s\<lparr>classList := (classList s)(e := classList s e - {c})\<rparr>"

definition classList_contains :: "elem \<Rightarrow> string \<Rightarrow> state \<Rightarrow> bool" where
  "classList_contains e c s = (c \<in> classList s e)"

text \<open>\<open>classList.toggle(c)\<close> and \<open>classList.toggle(c, force)\<close>.\<close>

definition classList_toggle :: "elem \<Rightarrow> string \<Rightarrow> state \<Rightarrow> state" where
  "classList_toggle e c s =
     (if classList_contains e c s then classList_remove e c s else classList_add e c s)"

definition classList_toggle_force :: "elem \<Rightarrow> string \<Rightarrow> bool \<Rightarrow> state \<Rightarrow> state" where
  "classList_toggle_force e c force s =
     (if force then classList_add e c s else classList_remove e c s)"

text \<open>Assigning \<open>className\<close> replaces the whole class list by the given tokens.\<close>

definition set_className :: "elem \<Rightarrow> string list \<Rightarrow> state \<Rightarrow> state" where
  "set_className e cs s = s\<lparr>classList := (classList s)(e := set cs)\<rparr>"

definition getAttribute :: "elem \<Rightarrow> string \<Rightarrow> state \<Rightarrow> string option" where
  "getAttribute e a s = attribute s e a"

definition setAttribute :: "elem \<Rightarrow> string \<Rightarrow> string \<Rightarrow> state \<Rightarrow> state" where
  "setAttribute e a v s = s\<lparr>attribute := (attribute s)(e := (attribute s e)(a \<mapsto> v))\<rparr>"

definition removeAttribute :: "elem \<Rightarrow> string \<Rightarrow> state \<Rightarrow> state" where
  "removeAttribute e a s = s\<lparr>attribute := (attribute s)(e := (attribute s e)(a := None))\<rparr>"

definition set_textContent :: "elem \<Rightarrow> js_string \<Rightarrow> state \<Rightarrow> state" where
  "set_textContent e t s = s\<lparr>textContent := (textContent s)(e := t)\<rparr>"

definition set_disabled :: "elem \<Rightarrow> bool \<Rightarrow> state \<Rightarrow> state" where
  "set_disabled e b s = s\<lparr>disabled := (disabled s)(e := b)\<rparr>"

text \<open>
  A control of the contact form, with what the script reads of it and never writes: its
  tag, the \<open>required\<close> attribute, its \<open>type\<close> property, its name, the value that
  \<open>reset()\<close> restores, and the element found by the selector
  \<^verbatim>\<open>[data-error-for="<id>"]\<close> inside the form, if there is one.
\<close>

datatype tag = Input | Textarea | Select

record field =
  felem :: elem
  tagName :: tag
  required :: bool
  type_of :: string
  name_of :: string
  defaultValue :: js_string
  errorElement :: "elem option"


section \<open>validateField (lines 79-105)\<close>

definition msg_required :: js_string where
  "msg_required = js ''Este campo es obligatorio.''"

definition msg_email :: js_string where
  "msg_email = js ''Por favor, introduzca un correo electr'' @ [0xF3] @ js ''nico v'' @ [0xE1]
     @ js ''lido.''"

text \<open>Lines 88-94: the verdict \<open>isValid\<close> and the message, from the field and its value.\<close>

definition check_field :: "field \<Rightarrow> js_string \<Rightarrow> bool \<times> js_string" where
  "check_field f v =
     (if required f \<and> trim v = [] then (False, msg_required)
      else if type_of f = ''email'' \<and> trim v \<noteq> [] \<and> \<not> regex_test email_pattern (trim v)
      then (False, msg_email)
      else (True, []))"

definition validateField :: "field \<Rightarrow> state \<Rightarrow> bool \<times> state" where
  "validateField f s =
     (let s1 = classList_remove (felem f) ''border-red-500'' s;
          s2 = (case errorElement f of
                  Some e \<Rightarrow> classList_add e ''hidden'' s1
                | None \<Rightarrow> s1);
          (isValid, errorMessage) = check_field f (value_of s2 (felem f))
      in if \<not> isValid then
           (let s3 = classList_add (felem f) ''border-red-500'' s2;
                s4 = (case errorElement f of
                        Some e \<Rightarrow> classList_remove e ''hidden'' (set_textContent e errorMessage s3)
                      | None \<Rightarrow> s3)
            in (isValid, s4))
         else (isValid, s2))"


section \<open>The page\<close>

text \<open>
  What the script selects once at start-up (lines 15-26) and what it takes from the browser.
  An element that the script tests for \<open>null\<close> before use is optional, and so is the submit
  button (line 115), which the submit handler uses without a test; the form and its message
  element are present, since the handler is only installed when they exist (line 113).
  \<open>menuIcon\<close> is the first \<open>i\<close> element inside the menu button; \<open>headerNav\<close> tells
  whether the navigation bar exists and \<open>navbarHeight\<close> is its \<open>offsetHeight\<close> (line 227).
  \<open>formFields\<close> are the \<open>input\<close>, \<open>textarea\<close> and \<open>select\<close> elements inside the contact
  form, in document order.

  \<open>formData\<close> is the list of entries of \<open>new FormData(contactForm)\<close> in a given state.
  The browser builds it from the controls associated with the form (it leaves out, among
  others, controls without a name, disabled controls, buttons and unchecked check boxes),
  so it is taken from the browser as the response of \<open>fetch\<close> is. The value of an entry is a
  string or a \<open>File\<close> object.
\<close>

datatype form_value = Text js_string | File

record nav_section =
  section_id :: string
  offsetTop :: int

record page =
  mobileMenuButton :: "elem option"
  mobileMenu :: "elem option"
  menuIcon :: "elem option"
  desktopMenuLinks :: "elem list"
  mobileMenuLinks :: "elem list"
  formFields :: "field list"
  formData :: "state \<Rightarrow> (string \<times> form_value) list"
  formMessageContainer :: "elem option"
  formMessageElement :: elem
  submitButton :: "elem option"
  sectionsToFadeIn :: "elem list"
  sectionsForNavHighlight :: "nav_section list"
  headerNav :: bool
  navbarHeight :: int


section \<open>setupMobileMenu (lines 34-63)\<close>

text \<open>The text of a boolean, as \<open>setAttribute\<close> stores it.\<close>

definition js_bool :: "bool \<Rightarrow> string" where
  "js_bool b = (if b then ''true'' else ''false'')"

text \<open>
  The click listener of the menu button (lines 39-48). Without the button or the panel
  the listener is not installed (line 35) and a click changes nothing.
\<close>

definition mobileMenuButton_click :: "page \<Rightarrow> state \<Rightarrow> state" where
  "mobileMenuButton_click pg s =
     (case (mobileMenuButton pg, mobileMenu pg) of
        (Some b, Some m) \<Rightarrow>
          (let isExpanded = (getAttribute b ''aria-expanded'' s = Some ''true'');
               s1 = setAttribute b ''aria-expanded'' (js_bool (\<not> isExpanded)) s;
               s2 = classList_toggle m ''hidden'' s1
           in case menuIcon pg of
                Some i \<Rightarrow>
                  classList_toggle_force i ''fa-times'' (\<not> isExpanded)
                    (classList_toggle_force i ''fa-bars'' isExpanded s2)
              | None \<Rightarrow> s2)
      | _ \<Rightarrow> s)"

text \<open>The click listener of each link of the mobile menu (lines 52-61).\<close>

definition mobileMenuLink_click :: "page \<Rightarrow> state \<Rightarrow> state" where
  "mobileMenuLink_click pg s =
     (case (mobileMenuButton pg, mobileMenu pg) of
        (Some b, Some m) \<Rightarrow>
          (if \<not> classList_contains m ''hidden'' s then
             (let s1 = classList_add m ''hidden'' s;
                  s2 = setAttribute b ''aria-expanded'' ''false'' s1
              in case menuIcon pg of
                   Some i \<Rightarrow> classList_add i ''fa-bars'' (classList_remove i ''fa-times'' s2)
                 | None \<Rightarrow> s2)
           else s)
      | _ \<Rightarrow> s)"


section \<open>setupSmoothScrollingAndActiveNav (lines 224-304)\<close>

text \<open>
  The click listener of an anchor of the header navigation (lines 230-264), as far as it
  changes the document: \<open>this\<close> is the clicked link and \<open>targetElement\<close> the result of
  \<open>document.querySelector(targetId)\<close>, with \<open>None\<close> for \<open>null\<close> and for a selector that
  throws (in both cases the listener changes nothing). The call of \<open>window.scrollTo\<close>
  moves the viewport and leaves the store as it is.
\<close>

definition navLink_click :: "page \<Rightarrow> elem \<Rightarrow> elem option \<Rightarrow> state \<Rightarrow> state" where
  "navLink_click pg this targetElement s =
     (case getAttribute this ''href'' s of
        None \<Rightarrow> s
      | Some targetId \<Rightarrow>
          if take 1 targetId = ''#'' then
            (case targetElement of
               None \<Rightarrow> s
             | Some _ \<Rightarrow>
                 (case mobileMenu pg of
                    None \<Rightarrow> s
                  | Some m \<Rightarrow>
                      if \<not> classList_contains m ''hidden'' s \<and> this \<in> set (mobileMenuLinks pg)
                      then
                        (let s1 = classList_add m ''hidden'' s;
                             s2 = (case mobileMenuButton pg of
                                     Some b \<Rightarrow> setAttribute b ''aria-expanded'' ''false'' s1
                                   | None \<Rightarrow> s1);
                             icon = (case mobileMenuButton pg of
                                       Some b \<Rightarrow> menuIcon pg
                                     | None \<Rightarrow> None)
                         in case icon of
                              Some i \<Rightarrow>
                                classList_add i ''fa-bars'' (classList_remove i ''fa-times'' s2)
                            | None \<Rightarrow> s2)
                      else s))
          else s)"

text \<open>
  \<open>updateActiveState\<close> (lines 269-294). The scroll position \<open>window.pageYOffset\<close> is a
  real number; \<open>offsetTop\<close> and the height of the navigation bar are integers. The function
  exists only when there is at least one section (line 268).
\<close>

definition sectionTop :: "page \<Rightarrow> nav_section \<Rightarrow> int" where
  "sectionTop pg sec = offsetTop sec - navbarHeight pg - 60"

text \<open>
  The sections whose adjusted top the scroll position has reached, in document order.
  This list is the reading of the loop of lines 273-278 that the specification gives;
  \<open>detect_section\<close> below is the loop itself.
\<close>

definition reached_sections :: "page \<Rightarrow> real \<Rightarrow> nav_section list" where
  "reached_sections pg scrollPosition =
     filter (\<lambda>sec. scrollPosition \<ge> real_of_int (offsetTop sec - navbarHeight pg - 60))
       (sectionsForNavHighlight pg)"

definition detect_section :: "page \<Rightarrow> real \<Rightarrow> string" where
  "detect_section pg scrollPosition =
     foldl (\<lambda>currentSectionId sec.
              if scrollPosition \<ge> real_of_int (sectionTop pg sec) then section_id sec
              else currentSectionId)
       '''' (sectionsForNavHighlight pg)"

definition current_section :: "page \<Rightarrow> real \<Rightarrow> string" where
  "current_section pg scrollPosition =
     (let currentSectionId = detect_section pg scrollPosition
      in case sectionsForNavHighlight pg of
           [] \<Rightarrow> currentSectionId
         | first # _ \<Rightarrow>
             if currentSectionId = '''' \<and> section_id first = ''inicio''
                \<and> scrollPosition < real_of_int (offsetTop first)
             then ''inicio'' else currentSectionId)"

definition mark_link :: "string \<Rightarrow> state \<Rightarrow> elem \<Rightarrow> state" where
  "mark_link currentSectionId s link =
     (let s1 = classList_remove link ''nav-link-active'' s
      in if getAttribute link ''href'' s1 = Some (''#'' @ currentSectionId)
         then classList_add link ''nav-link-active'' s1 else s1)"

definition updateActiveState :: "page \<Rightarrow> real \<Rightarrow> state \<Rightarrow> state" where
  "updateActiveState pg scrollPosition s =
     foldl (mark_link (current_section pg scrollPosition)) s
       (desktopMenuLinks pg @ mobileMenuLinks pg)"


section \<open>setupFadeInAnimations (lines 198-218)\<close>





section \<open>setupContactForm (lines 112-193)\<close>

subsection \<open>The response body\<close>

text \<open>
  The value that \<open>response.json()\<close> yields. A number is given by the text that JavaScript
  prints for it (\<open>String(n)\<close>), which is \<open>0\<close> exactly for zero. The members of an object
  are kept in the order of the JSON text; of two members with one key the later one is the
  property.
\<close>

datatype json =
    JNull
  | JBool bool
  | JNum js_string
  | JStr js_string
  | JArr "json list"
  | JObj "(js_string \<times> json) list"

datatype js_error = TypeError | SyntaxError | NetworkError

text \<open>
  \<open>result.message\<close>: reading a property of \<open>null\<close> throws; a primitive value or an array
  has no such property, and the read yields \<open>undefined\<close> (here \<open>None\<close>).
\<close>

definition message_of :: "json \<Rightarrow> js_error + json option" where
  "message_of result =
     (case result of
        JNull \<Rightarrow> Inl TypeError
      | JObj members \<Rightarrow> Inr (map_of (rev members) (js ''message''))
      | _ \<Rightarrow> Inr None)"

fun truthy :: "json \<Rightarrow> bool" where
  "truthy JNull = False"
| "truthy (JBool b) = b"
| "truthy (JNum t) = (t \<noteq> js ''0'')"
| "truthy (JStr t) = (t \<noteq> [])"
| "truthy (JArr _) = True"
| "truthy (JObj _) = True"

text \<open>
  The conversion of a value to a string, which the setter of \<open>textContent\<close> applies.
  An object made by \<open>JSON.parse\<close> that has a member \<open>toString\<close> cannot be converted (the
  member is not a function, and \<open>valueOf\<close> yields no primitive value): the conversion
  throws. Any other object gives \<open>[object Object]\<close>. An array gives the texts of its
  elements, separated by commas, with the empty text for \<open>null\<close>. \<open>to_text\<close> is the text
  where the conversion succeeds, and \<open>conversion_throws\<close> tells where it does not.
\<close>

fun to_text :: "json \<Rightarrow> js_string"
  and array_text :: "json list \<Rightarrow> js_string"
  and element_text :: "json \<Rightarrow> js_string" where
  "to_text JNull = js ''null''"
| "to_text (JBool b) = js (js_bool b)"
| "to_text (JNum t) = t"
| "to_text (JStr t) = t"
| "to_text (JArr xs) = array_text xs"
| "to_text (JObj _) = js ''[object Object]''"
| "array_text [] = []"
| "array_text [x] = element_text x"
| "array_text (x # y # ys) = element_text x @ [0x2C] @ array_text (y # ys)"
| "element_text JNull = []"
| "element_text (JBool b) = to_text (JBool b)"
| "element_text (JNum t) = to_text (JNum t)"
| "element_text (JStr t) = to_text (JStr t)"
| "element_text (JArr xs) = to_text (JArr xs)"
| "element_text (JObj ms) = to_text (JObj ms)"

fun conversion_throws :: "json \<Rightarrow> bool"
  and any_throws :: "json list \<Rightarrow> bool" where
  "conversion_throws JNull = False"
| "conversion_throws (JBool _) = False"
| "conversion_throws (JNum _) = False"
| "conversion_throws (JStr _) = False"
| "conversion_throws (JArr xs) = any_throws xs"
| "conversion_throws (JObj ms) = (js ''toString'' \<in> fst ` set ms)"
| "any_throws [] = False"
| "any_throws (x # xs) = (conversion_throws x \<or> any_throws xs)"

text \<open>
  \<open>result.message || fallback\<close>, as the text that is shown, and whether the assignment of
  this value to \<open>textContent\<close> throws.
\<close>

definition message_or :: "json option \<Rightarrow> js_string \<Rightarrow> js_string" where
  "message_or m fallback =
     (case m of
        Some v \<Rightarrow> if truthy v then to_text v else fallback
      | None \<Rightarrow> fallback)"

definition message_throws :: "json option \<Rightarrow> bool" where
  "message_throws m =
     (case m of
        Some v \<Rightarrow> truthy v \<and> conversion_throws v
      | None \<Rightarrow> False)"

text \<open>
  How the awaited request ends: the promise of \<open>fetch\<close> is rejected (the request did not
  complete), or it is fulfilled with a response, of which the handler reads \<open>ok\<close> and
  \<open>json()\<close>; the body is \<open>None\<close> when \<open>json()\<close> rejects because the body is not JSON.
\<close>

datatype fetch_result = Rejected | Fulfilled bool "json option"

subsection \<open>The request\<close>

text \<open>
  \<open>Object.fromEntries(formData.entries())\<close>: every entry sets a property of the object, and
  a later entry with the same name replaces the value. The object is modelled as the map
  from its keys to their values; the body of the request is the JSON text of this object,
  and the order in which that text lists the keys is not modelled.
\<close>

record request =
  url :: string
  http_method :: string
  headers :: "(string \<times> string) list"
  body :: "string \<rightharpoonup> form_value"

definition fromEntries :: "(string \<times> form_value) list \<Rightarrow> (string \<rightharpoonup> form_value)" where
  "fromEntries es = foldl (\<lambda>obj (k, v). obj(k \<mapsto> v)) Map.empty es"

subsection \<open>The submit handler\<close>

definition msg_correct_errors :: js_string where
  "msg_correct_errors = js ''Por favor, corrija los errores en el formulario.''"

definition msg_sending :: js_string where
  "msg_sending = js ''Enviando...''"

definition msg_processing :: js_string where
  "msg_processing = js ''Procesando su solicitud...''"

definition msg_success_default :: js_string where
  "msg_success_default = [0xA1] @ js ''Mensaje enviado con '' @ [0xE9] @ js ''xito!''"

definition msg_failure_default :: js_string where
  "msg_failure_default = js ''Error al enviar el mensaje. Int'' @ [0xE9] @ js ''ntelo m'' @ [0xE1]
     @ js ''s tarde.''"

definition msg_connection_error :: js_string where
  "msg_connection_error = js ''Error de conexi'' @ [0xF3] @ js ''n. Verifique su red o int''
     @ [0xE9] @ js ''ntelo m'' @ [0xE1] @ js ''s tarde.''"

definition class_error :: "string list" where
  "class_error = [''text-center'', ''text-sm'', ''text-red-600'', ''font-semibold'']"

definition class_info :: "string list" where
  "class_info = [''text-center'', ''text-sm'', ''text-sky-600'']"

definition class_success :: "string list" where
  "class_success = [''text-center'', ''text-sm'', ''text-green-600'', ''font-semibold'']"

text \<open>
  The selector of line 122 (and of line 190), over the controls inside the form: the
  \<open>input\<close> and \<open>textarea\<close> elements with the attribute \<open>required\<close> and the \<open>input\<close> elements
  of type \<open>email\<close>. A \<open>select\<close> element is never selected.
\<close>

definition fieldsToValidate :: "page \<Rightarrow> field list" where
  "fieldsToValidate pg =
     filter (\<lambda>f. (tagName f = Input \<and> required f) \<or> (tagName f = Textarea \<and> required f)
                \<or> (tagName f = Input \<and> type_of f = ''email''))
       (formFields pg)"

text \<open>The loop of lines 123-127.\<close>

fun validate_each :: "field list \<Rightarrow> bool \<Rightarrow> state \<Rightarrow> bool \<times> state" where
  "validate_each [] formIsValid s = (formIsValid, s)"
| "validate_each (f # fs) formIsValid s =
     (let (ok, s1) = validateField f s
      in validate_each fs (if \<not> ok then False else formIsValid) s1)"

definition set_role :: "page \<Rightarrow> string \<Rightarrow> state \<Rightarrow> state" where
  "set_role pg r s =
     (case formMessageContainer pg of Some c \<Rightarrow> setAttribute c ''role'' r s | None \<Rightarrow> s)"

definition remove_role :: "page \<Rightarrow> state \<Rightarrow> state" where
  "remove_role pg s =
     (case formMessageContainer pg of Some c \<Rightarrow> removeAttribute c ''role'' s | None \<Rightarrow> s)"

text \<open>
  Lines 118-152, up to the point where the handler waits for the response. The handler
  returns at line 133 when validation fails (\<open>Invalid\<close>). Without a submit button the read
  of \<open>submitButton.textContent\<close> at line 136 throws, after validation and before anything
  else is written or sent (\<open>Thrown\<close>). Otherwise the handler waits (\<open>Awaiting\<close>), with the
  button, its label read at line 136 and the request that has been sent.
\<close>

datatype start = Invalid | Thrown js_error | Awaiting elem js_string request

definition submit_start :: "page \<Rightarrow> state \<Rightarrow> start \<times> state" where
  "submit_start pg s =
     (let (formIsValid, s1) = validate_each (fieldsToValidate pg) True s
      in if \<not> formIsValid then
           (Invalid,
            set_role pg ''alert''
              (set_className (formMessageElement pg) class_error
                 (set_textContent (formMessageElement pg) msg_correct_errors s1)))
         else
           (case submitButton pg of
              None \<Rightarrow> (Thrown TypeError, s1)
            | Some button \<Rightarrow>
                (let originalButtonText = textContent s1 button;
                     s2 = set_disabled button True s1;
                     s3 = set_textContent button msg_sending s2;
                     s4 = set_textContent (formMessageElement pg) msg_processing s3;
                     s5 = set_className (formMessageElement pg) class_info s4;
                     s6 = remove_role pg s5;
                     dataToSend = fromEntries (formData pg s6)
                 in (Awaiting button originalButtonText
                       \<lparr>url = ''http://127.0.0.1:5001/api/contact'', http_method = ''POST'',
                        headers = [(''Content-Type'', ''application/json'')],
                        body = dataToSend\<rparr>,
                     s6))))"

text \<open>\<open>contactForm.reset()\<close>: every control takes its default value again.\<close>

definition form_reset :: "page \<Rightarrow> state \<Rightarrow> state" where
  "form_reset pg s =
     foldl (\<lambda>s f. s\<lparr>value_of := (value_of s)(felem f := defaultValue f)\<rparr>) s (formFields pg)"

text \<open>The loop of lines 162-166.\<close>

definition clear_error :: "state \<Rightarrow> field \<Rightarrow> state" where
  "clear_error s f =
     (let s1 = classList_remove (felem f) ''border-red-500'' s
      in case errorElement f of Some e \<Rightarrow> classList_add e ''hidden'' s1 | None \<Rightarrow> s1)"

text \<open>
  Lines 154-171: the body of \<open>try\<close> after the response has arrived. An exception leaves
  the state as it was: \<open>json()\<close>, the read of \<open>result.message\<close> and the conversion of the
  message to a string come before the first write.
\<close>

definition on_response :: "page \<Rightarrow> bool \<Rightarrow> json option \<Rightarrow> state \<Rightarrow> js_error + state" where
  "on_response pg ok parsed s =
     (case parsed of
        None \<Rightarrow> Inl SyntaxError
      | Some result \<Rightarrow>
          (case message_of result of
             Inl e \<Rightarrow> Inl e
           | Inr m \<Rightarrow>
               if message_throws m then Inl TypeError
               else if ok then
                 (let s1 = set_textContent (formMessageElement pg)
                             (message_or m msg_success_default) s;
                      s2 = set_className (formMessageElement pg) class_success s1;
                      s3 = set_role pg ''status'' s2;
                      s4 = form_reset pg s3
                  in Inr (foldl clear_error s4 (fieldsToValidate pg)))
               else
                 (let s1 = set_textContent (formMessageElement pg)
                             (message_or m msg_failure_default) s;
                      s2 = set_className (formMessageElement pg) class_error s1
                  in Inr (set_role pg ''alert'' s2))))"

text \<open>Lines 172-176, the \<open>catch\<close> block.\<close>

definition on_catch :: "page \<Rightarrow> state \<Rightarrow> state" where
  "on_catch pg s =
     set_role pg ''alert''
       (set_className (formMessageElement pg) class_error
          (set_textContent (formMessageElement pg) msg_connection_error s))"

text \<open>
  Lines 177-186, the \<open>finally\<close> block. The function scheduled by \<open>setTimeout\<close> has an empty
  body and is left out.
\<close>

definition on_finally :: "elem \<Rightarrow> js_string \<Rightarrow> state \<Rightarrow> state" where
  "on_finally button originalButtonText s =
     set_textContent button originalButtonText (set_disabled button False s)"

definition submit_finish :: "page \<Rightarrow> elem \<Rightarrow> js_string \<Rightarrow> fetch_result \<Rightarrow> state \<Rightarrow> state"
  where
  "submit_finish pg button originalButtonText r s =
     on_finally button originalButtonText
       (case r of
          Rejected \<Rightarrow> on_catch pg s
        | Fulfilled ok parsed \<Rightarrow>
            (case on_response pg ok parsed s of
               Inl _ \<Rightarrow> on_catch pg s
             | Inr s1 \<Rightarrow> s1))"

text \<open>
  One run of the submit handler, given how the request ends; the second component lists
  the requests sent. The exception of line 136 ends the handler and shows nowhere in the
  document.
\<close>

definition contactForm_submit :: "page \<Rightarrow> fetch_result \<Rightarrow> state \<Rightarrow> state \<times> request list" where
  "contactForm_submit pg r s =
     (case submit_start pg s of
        (Invalid, s1) \<Rightarrow> (s1, [])
      | (Thrown _, s1) \<Rightarrow> (s1, [])
      | (Awaiting button originalButtonText req, s1) \<Rightarrow>
          (submit_finish pg button originalButtonText r s1, [req]))"


section \<open>Events\<close>



section \<open>An example page\<close>

text \<open>
  A page of the kind the script is written for, used to evaluate the definitions: a menu
  button (0) with its icon (2), the menu panel (1), two links in each menu (3-6), a form
  with the fields nombre (10), email (11), telefono (12) and mensaje (13), their error
  elements (20, 21, 23), the message container (30) and element (31), the submit button
  (32), two fade-in sections (40, 41) and two sections of the main part.
\<close>

definition field_nombre :: field where
  "field_nombre = \<lparr>felem = 10, tagName = Input, required = True, type_of = ''text'',
     name_of = ''nombre'', defaultValue = [], errorElement = Some 20\<rparr>"

definition field_email :: field where
  "field_email = \<lparr>felem = 11, tagName = Input, required = True, type_of = ''email'',
     name_of = ''email'', defaultValue = [], errorElement = Some 21\<rparr>"

definition field_telefono :: field where
  "field_telefono = \<lparr>felem = 12, tagName = Input, required = False, type_of = ''tel'',
     name_of = ''telefono'', defaultValue = [], errorElement = None\<rparr>"

definition field_mensaje :: field where
  "field_mensaje = \<lparr>felem = 13, tagName = Textarea, required = True, type_of = ''textarea'',
     name_of = ''mensaje'', defaultValue = [], errorElement = Some 23\<rparr>"


definition example_page :: page where
  "example_page =
     \<lparr>mobileMenuButton = Some 0, mobileMenu = Some 1, menuIcon = Some 2,
      desktopMenuLinks = [3, 4], mobileMenuLinks = [5, 6],
      formFields = [field_nombre, field_email, field_telefono, field_mensaje],
      formData = (\<lambda>s. [(''nombre'', Text (value_of s 10)), (''email'', Text (value_of s 11)),
                       (''telefono'', Text (value_of s 12)), (''mensaje'', Text (value_of s 13))]),
      formMessageContainer = Some 30, formMessageElement = 31, submitButton = Some 32,
      sectionsToFadeIn = [40, 41],
      sectionsForNavHighlight =
        [\<lparr>section_id = ''inicio'', offsetTop = 200\<rparr>,
         \<lparr>section_id = ''contacto'', offsetTop = 900\<rparr>],
      headerNav = True, navbarHeight = 64\<rparr>"

text \<open>The page as loaded, with the menu closed and the form filled in correctly.\<close>

definition example_state :: state where
  "example_state =
     \<lparr>classList = (\<lambda>_. {})(1 := {''hidden''}, 2 := {''fas'', ''fa-bars''}),
      attribute = (\<lambda>_. Map.empty)
        (0 := [''aria-expanded'' \<mapsto> ''false''],
         3 := [''href'' \<mapsto> ''#inicio''], 4 := [''href'' \<mapsto> ''#contacto''],
         5 := [''href'' \<mapsto> ''#inicio''], 6 := [''href'' \<mapsto> ''#contacto'']),
      textContent = (\<lambda>_. [])(32 := js ''Enviar''),
      value_of = (\<lambda>_. [])(10 := js ''Ana'', 11 := js ''a@b.com'', 13 := js ''Hola''),
      disabled = (\<lambda>_. False),
      observed = {40, 41}\<rparr>"


section \<open>The consistency of the mobile menu\<close>

text \<open>
  The invariant of the menu, for a page that has the button and the panel: the attribute
  \<open>aria-expanded\<close> of the button is \<open>true\<close> exactly when the panel lacks the class
  \<open>hidden\<close>, and, when the button has an icon, this is the case exactly when the icon
  carries \<open>fa-times\<close> and not \<open>fa-bars\<close>.
\<close>

definition menu_invariant :: "page \<Rightarrow> state \<Rightarrow> bool" where
  "menu_invariant pg s =
     (case (mobileMenuButton pg, mobileMenu pg) of
        (Some b, Some m) \<Rightarrow>
          ((getAttribute b ''aria-expanded'' s = Some ''true'')
             = (\<not> classList_contains m ''hidden'' s))
          \<and> (case menuIcon pg of
                Some i \<Rightarrow>
                  (\<not> classList_contains m ''hidden'' s)
                    = (classList_contains i ''fa-times'' s \<and> \<not> classList_contains i ''fa-bars'' s)
              | None \<Rightarrow> True)
      | _ \<Rightarrow> True)"

text \<open>
  The icon agrees with the flag: it carries \<open>fa-times\<close> exactly when \<open>aria-expanded\<close> is
  \<open>true\<close>, and \<open>fa-bars\<close> exactly when it is not.
\<close>

definition icon_agrees :: "elem \<Rightarrow> elem \<Rightarrow> state \<Rightarrow> bool" where
  "icon_agrees b i s =
     (classList_contains i ''fa-times'' s = (getAttribute b ''aria-expanded'' s = Some ''true'')
      \<and> classList_contains i ''fa-bars'' s = (getAttribute b ''aria-expanded'' s \<noteq> Some ''true''))"


section \<open>Visibility of the fade-in sections\<close>

text \<open>
  From state \<open>s\<close> to state \<open>s'\<close> the element \<open>e\<close> stays visible and stays unobserved: if
  it carries \<open>is-visible\<close> in \<open>s\<close> it does in \<open>s'\<close>, and if it is not a target of the observer
  in \<open>s\<close> it is none in \<open>s'\<close>.
\<close>

definition keeps_visible :: "elem \<Rightarrow> state \<Rightarrow> state \<Rightarrow> bool" where
  "keeps_visible e s s' =
     ((''is-visible'' \<in> classList s e \<longrightarrow> ''is-visible'' \<in> classList s' e)
      \<and> (e \<notin> observed s \<longrightarrow> e \<notin> observed s'))"


section \<open>Properties of the store operations\<close>

lemmas store_defs =
  classList_add_def classList_remove_def classList_contains_def classList_toggle_def
  classList_toggle_force_def set_className_def getAttribute_def setAttribute_def
  removeAttribute_def set_textContent_def set_disabled_def

lemma value_of_classList_add [simp]: "value_of (classList_add e c s) = value_of s"
  by (simp add: classList_add_def)

lemma value_of_classList_remove [simp]: "value_of (classList_remove e c s) = value_of s"
  by (simp add: classList_remove_def)

lemma value_of_set_textContent [simp]: "value_of (set_textContent e t s) = value_of s"
  by (simp add: set_textContent_def)

lemma fst_validateField: "fst (validateField f s) = fst (check_field f (value_of s (felem f)))"
  by (simp add: validateField_def Let_def split: option.splits prod.splits)


section \<open>The e-mail pattern\<close>

lemma regex_test_One:
  "regex_test (One c # r) v = (\<exists>x t. v = x # t \<and> in_class c x \<and> regex_test r t)"
  by (cases v) auto

lemma regex_test_OneOrMore:
  "regex_test (OneOrMore c # r) v =
     (\<exists>a t. v = a @ t \<and> a \<noteq> [] \<and> (\<forall>x \<in> set a. in_class c x) \<and> regex_test r t)"
proof (induction v)
  case Nil
  show ?case by simp
next
  case (Cons x xs)
  show ?case
  proof
    assume "regex_test (OneOrMore c # r) (x # xs)"
    then have x: "in_class c x"
      and rest: "regex_test (OneOrMore c # r) xs \<or> regex_test r xs"
      by simp_all
    from rest show "\<exists>a t. x # xs = a @ t \<and> a \<noteq> [] \<and> (\<forall>y \<in> set a. in_class c y) \<and> regex_test r t"
    proof
      assume "regex_test (OneOrMore c # r) xs"
      with Cons.IH obtain a t where
        "xs = a @ t" "a \<noteq> []" "\<forall>y \<in> set a. in_class c y" "regex_test r t"
        by blast
      with x have "x # xs = (x # a) @ t \<and> x # a \<noteq> [] \<and> (\<forall>y \<in> set (x # a). in_class c y)
          \<and> regex_test r t"
        by simp
      then show ?thesis by blast
    next
      assume "regex_test r xs"
      with x have "x # xs = [x] @ xs \<and> [x] \<noteq> [] \<and> (\<forall>y \<in> set [x]. in_class c y)
          \<and> regex_test r xs"
        by simp
      then show ?thesis by blast
    qed
  next
    assume "\<exists>a t. x # xs = a @ t \<and> a \<noteq> [] \<and> (\<forall>y \<in> set a. in_class c y) \<and> regex_test r t"
    then obtain a t where eq: "x # xs = a @ t" and ne: "a \<noteq> []"
      and cls: "\<forall>y \<in> set a. in_class c y" and r: "regex_test r t"
      by blast
    from ne obtain b bs where a: "a = b # bs" by (cases a) auto
    with eq have bx: "b = x" and xs: "xs = bs @ t" by simp_all
    from cls a bx have x: "in_class c x" by simp
    show "regex_test (OneOrMore c # r) (x # xs)"
    proof (cases "bs = []")
      case True
      with xs r x show ?thesis by simp
    next
      case False
      with cls a xs r have "\<exists>a t. xs = a @ t \<and> a \<noteq> [] \<and> (\<forall>y \<in> set a. in_class c y)
          \<and> regex_test r t"
        by auto
      with Cons.IH x show ?thesis by simp
    qed
  qed
qed

lemma regex_test_OneOrMoreI:
  "a \<noteq> [] \<Longrightarrow> (\<forall>x \<in> set a. in_class c x) \<Longrightarrow> regex_test r t
     \<Longrightarrow> regex_test (OneOrMore c # r) (a @ t)"
  unfolding regex_test_OneOrMore by blast

lemma regex_test_email_shape: "regex_test email_pattern v = email_shape v"
proof
  assume "regex_test email_pattern v"
  then obtain l t1 where v: "v = l @ t1" and l: "l \<noteq> []"
    and lc: "\<forall>x \<in> set l. in_class (NotSpaceNor 0x40) x"
    and r1: "regex_test [One (Literal 0x40), OneOrMore (NotSpaceNor 0x40), One (Literal 0x2E),
               OneOrMore (NotSpaceNor 0x40)] t1"
    unfolding email_pattern_def regex_test_OneOrMore [of _ "One (Literal 0x40) # _"] by blast
  from r1 obtain t2 where t1: "t1 = 0x40 # t2"
    and r2: "regex_test [OneOrMore (NotSpaceNor 0x40), One (Literal 0x2E),
               OneOrMore (NotSpaceNor 0x40)] t2"
    unfolding regex_test_One by auto
  from r2 obtain d t3 where t2: "t2 = d @ t3" and d: "d \<noteq> []"
    and dc: "\<forall>x \<in> set d. in_class (NotSpaceNor 0x40) x"
    and r3: "regex_test [One (Literal 0x2E), OneOrMore (NotSpaceNor 0x40)] t3"
    unfolding regex_test_OneOrMore [of _ "One (Literal 0x2E) # _"] by blast
  from r3 obtain t4 where t3: "t3 = 0x2E # t4"
    and r4: "regex_test [OneOrMore (NotSpaceNor 0x40)] t4"
    unfolding regex_test_One by auto
  from r4 obtain t t5 where t4: "t4 = t @ t5" and t: "t \<noteq> []"
    and tc: "\<forall>x \<in> set t. in_class (NotSpaceNor 0x40) x" and r5: "regex_test [] t5"
    unfolding regex_test_OneOrMore [of _ "[]"] by blast
  from r5 have "t5 = []" by simp
  with v t1 t2 t3 t4 have "v = l @ [0x40] @ d @ [0x2E] @ t" by simp
  moreover from lc dc tc have "\<forall>x \<in> set (l @ d @ t). \<not> is_space x \<and> x \<noteq> 0x40" by auto
  ultimately show "email_shape v" using l d t unfolding email_shape_def by blast
next
  assume "email_shape v"
  then obtain l d t where v: "v = l @ [0x40] @ d @ [0x2E] @ t"
    and ne: "l \<noteq> []" "d \<noteq> []" "t \<noteq> []"
    and cls: "\<forall>x \<in> set (l @ d @ t). \<not> is_space x \<and> x \<noteq> 0x40"
    unfolding email_shape_def by blast
  from ne cls have "regex_test [OneOrMore (NotSpaceNor 0x40)] (t @ [])"
    by (intro regex_test_OneOrMoreI) auto
  then have "regex_test [One (Literal 0x2E), OneOrMore (NotSpaceNor 0x40)] (0x2E # t)"
    by simp
  with ne cls have "regex_test [OneOrMore (NotSpaceNor 0x40), One (Literal 0x2E),
      OneOrMore (NotSpaceNor 0x40)] (d @ 0x2E # t)"
    by (intro regex_test_OneOrMoreI) auto
  then have "regex_test [One (Literal 0x40), OneOrMore (NotSpaceNor 0x40),
      One (Literal 0x2E), OneOrMore (NotSpaceNor 0x40)] (0x40 # d @ 0x2E # t)"
    by simp
  with ne cls have "regex_test email_pattern (l @ 0x40 # d @ 0x2E # t)"
    unfolding email_pattern_def by (intro regex_test_OneOrMoreI) auto
  with v show "regex_test email_pattern v" by simp
qed

section \<open>Validation of a field\<close>

lemma trim_empty_iff: "(trim v = []) = (\<forall>x \<in> set v. is_space x)"
proof -
  have "(dropWhile is_space v = []) = (\<forall>x \<in> set (dropWhile is_space v). is_space x)"
  proof (cases "dropWhile is_space v")
    case Nil
    show ?thesis unfolding Nil by simp
  next
    case (Cons y ys)
    then have "\<not> is_space (hd (dropWhile is_space v))"
      using hd_dropWhile [of is_space v] by simp
    with Cons show ?thesis by auto
  qed
  moreover have "(trim v = []) = (\<forall>x \<in> set (dropWhile is_space v). is_space x)"
    by (simp add: trim_def dropWhile_eq_Nil_conv)
  moreover have "(dropWhile is_space v = []) = (\<forall>x \<in> set v. is_space x)"
    by (simp add: dropWhile_eq_Nil_conv)
  ultimately show ?thesis by simp
qed

lemma email_shape_properties:
  assumes "email_shape v"
  shows "(\<forall>x \<in> set v. \<not> is_space x) \<and> count_list v 0x40 = 1 \<and> 0x2E \<in> set (domain_part v)"
proof -
  from assms obtain l d t where v: "v = l @ [0x40] @ d @ [0x2E] @ t"
    and cls: "\<forall>x \<in> set (l @ d @ t). \<not> is_space x \<and> x \<noteq> 0x40"
    unfolding email_shape_def by blast
  have sp: "\<not> is_space 0x40" "\<not> is_space 0x2E"
    by (simp_all add: is_space_def)
  from v cls sp have "\<forall>x \<in> set v. \<not> is_space x" by auto
  moreover from cls have "count_list l 0x40 = 0" "count_list d 0x40 = 0" "count_list t 0x40 = 0"
    by (auto simp: count_list_0_iff)
  with v have "count_list v 0x40 = 1" by simp
  moreover from cls have "dropWhile (\<lambda>x. x \<noteq> 0x40) (l @ 0x40 # d @ 0x2E # t) = 0x40 # d @ 0x2E # t"
    by (subst dropWhile_append2) auto
  with v have "domain_part v = d @ 0x2E # t" by (simp add: domain_part_def)
  then have "0x2E \<in> set (domain_part v)" by simp
  ultimately show ?thesis by blast
qed

text \<open>
  C2. For a field of type email whose trimmed value is not empty, \<open>validateField\<close> returns
  true exactly when the trimmed value has the shape of the specification: a non-empty run
  of characters that are neither space nor \<open>@\<close>, an \<open>@\<close>, such a run, a dot, such a run.
  A value of this shape has no space, exactly one \<open>@\<close> and a dot after the \<open>@\<close>. The value
  \<open>a@b.com\<close> is accepted; \<open>a@b\<close> and \<open>a b@c.com\<close> are rejected.
\<close>

theorem validateField_email:
  assumes "type_of f = ''email''" and "trim (value_of s (felem f)) \<noteq> []"
  shows "fst (validateField f s) = email_shape (trim (value_of s (felem f)))
    \<and> (fst (validateField f s) \<longrightarrow>
         (\<forall>x \<in> set (trim (value_of s (felem f))). \<not> is_space x)
         \<and> count_list (trim (value_of s (felem f))) 0x40 = 1
         \<and> 0x2E \<in> set (domain_part (trim (value_of s (felem f)))))
    \<and> (value_of s (felem f) = js ''a@b.com'' \<longrightarrow> fst (validateField f s))
    \<and> (value_of s (felem f) = js ''a@b'' \<longrightarrow> \<not> fst (validateField f s))
    \<and> (value_of s (felem f) = js ''a b@c.com'' \<longrightarrow> \<not> fst (validateField f s))"
proof -
  let ?v = "trim (value_of s (felem f))"
  from assms have verdict: "fst (validateField f s) = regex_test email_pattern ?v"
    by (simp add: fst_validateField check_field_def)
  then have shape: "fst (validateField f s) = email_shape ?v"
    by (simp add: regex_test_email_shape)
  moreover from shape have "fst (validateField f s) \<longrightarrow>
      (\<forall>x \<in> set ?v. \<not> is_space x) \<and> count_list ?v 0x40 = 1 \<and> 0x2E \<in> set (domain_part ?v)"
    using email_shape_properties [of ?v] by blast
  moreover have "value_of s (felem f) = js ''a@b.com'' \<longrightarrow> fst (validateField f s)"
    using verdict by (simp add: js_def trim_def is_space_def email_pattern_def)
  moreover have "value_of s (felem f) = js ''a@b'' \<longrightarrow> \<not> fst (validateField f s)"
    using verdict by (simp add: js_def trim_def is_space_def email_pattern_def)
  moreover have "value_of s (felem f) = js ''a b@c.com'' \<longrightarrow> \<not> fst (validateField f s)"
    using verdict by (simp add: js_def trim_def is_space_def email_pattern_def)
  ultimately show ?thesis by blast
qed

theorem validateField_email_witness:
  "type_of field_email = ''email''
   \<and> trim (value_of example_state (felem field_email)) \<noteq> []
   \<and> value_of example_state (felem field_email) = js ''a@b.com''
   \<and> fst (validateField field_email example_state)
   \<and> email_shape (trim (value_of example_state (felem field_email)))"
proof -
  have t: "type_of field_email = ''email''"
    by (simp add: field_email_def)
  have v: "value_of example_state (felem field_email) = js ''a@b.com''"
    by (simp add: field_email_def example_state_def)
  have n: "trim (value_of example_state (felem field_email)) \<noteq> []"
    unfolding v by (simp add: js_def trim_def is_space_def)
  from validateField_email [OF t n] t v n show ?thesis by blast
qed

text \<open>
  C6. For a field marked required, the value is empty after trimming exactly when it
  consists of white space only, and \<open>validateField\<close> then rejects the field. A value that is
  not empty after trimming is accepted unless the field is an e-mail field whose trimmed
  value does not match the pattern; so a required field that is not an e-mail field is
  rejected exactly when its trimmed value is empty.
\<close>

theorem validateField_required:
  assumes "required f"
  shows "((trim (value_of s (felem f)) = []) = (\<forall>x \<in> set (value_of s (felem f)). is_space x))
    \<and> (trim (value_of s (felem f)) = [] \<longrightarrow> \<not> fst (validateField f s))
    \<and> (trim (value_of s (felem f)) \<noteq> [] \<longrightarrow>
         fst (validateField f s) =
           (\<not> (type_of f = ''email''
               \<and> \<not> regex_test email_pattern (trim (value_of s (felem f))))))
    \<and> (type_of f \<noteq> ''email'' \<longrightarrow>
         (\<not> fst (validateField f s)) = (trim (value_of s (felem f)) = []))"
  using assms by (simp add: fst_validateField check_field_def trim_empty_iff)

theorem validateField_required_witness:
  "required field_nombre
   \<and> \<not> fst (validateField field_nombre
           (example_state\<lparr>value_of := (value_of example_state)(10 := js ''   '')\<rparr>))
   \<and> fst (validateField field_nombre example_state)"
proof -
  have r: "required field_nombre"
    by (simp add: field_nombre_def)
  have "trim (value_of (example_state\<lparr>value_of := (value_of example_state)(10 := js ''   '')\<rparr>)
      (felem field_nombre)) = []"
    by (simp add: field_nombre_def js_def trim_def is_space_def)
  moreover have "trim (value_of example_state (felem field_nombre)) \<noteq> []"
    by (simp add: field_nombre_def example_state_def js_def trim_def is_space_def)
  moreover have "type_of field_nombre \<noteq> ''email''"
    by (simp add: field_nombre_def)
  ultimately show ?thesis
    using r validateField_required [OF r, of example_state]
      validateField_required [OF r,
        of "example_state\<lparr>value_of := (value_of example_state)(10 := js ''   '')\<rparr>"]
    by blast
qed

section \<open>The mobile menu\<close>

lemma mobileMenuButton_click_invariant:
  "menu_invariant pg s \<Longrightarrow> menu_invariant pg (mobileMenuButton_click pg s)"
  by (auto simp: menu_invariant_def mobileMenuButton_click_def store_defs js_bool_def Let_def
      split: option.splits)

lemma mobileMenuLink_click_invariant:
  "menu_invariant pg s \<Longrightarrow> menu_invariant pg (mobileMenuLink_click pg s)"
  by (auto simp: menu_invariant_def mobileMenuLink_click_def store_defs Let_def
      split: option.splits)

lemma navLink_click_invariant:
  "menu_invariant pg s \<Longrightarrow> menu_invariant pg (navLink_click pg this targetElement s)"
  by (auto simp: menu_invariant_def navLink_click_def store_defs Let_def
      split: option.splits)

text \<open>
  C8. Each operation that changes the menu (the click on the menu button, the click on a
  link of the mobile menu, and the closing of the menu by the click listener of the
  navigation anchors) preserves the invariant: \<open>aria-expanded\<close> is \<open>true\<close> exactly when the
  panel lacks \<open>hidden\<close>, which is exactly when the icon carries \<open>fa-times\<close> and not
  \<open>fa-bars\<close>.
\<close>

theorem menu_invariant_preserved:
  assumes "menu_invariant pg s"
  shows "menu_invariant pg (mobileMenuButton_click pg s)
    \<and> menu_invariant pg (mobileMenuLink_click pg s)
    \<and> menu_invariant pg (navLink_click pg this targetElement s)"
  using assms mobileMenuButton_click_invariant mobileMenuLink_click_invariant
    navLink_click_invariant
  by blast

theorem menu_invariant_preserved_witness:
  "menu_invariant example_page example_state
   \<and> menu_invariant example_page (mobileMenuButton_click example_page example_state)
   \<and> getAttribute 0 ''aria-expanded'' (mobileMenuButton_click example_page example_state)
       = Some ''true''
   \<and> menu_invariant example_page
       (mobileMenuLink_click example_page (mobileMenuButton_click example_page example_state))
   \<and> menu_invariant example_page
       (navLink_click example_page 5 (Some 41)
          (mobileMenuButton_click example_page example_state))
   \<and> classList_contains 1 ''hidden''
       (navLink_click example_page 5 (Some 41)
          (mobileMenuButton_click example_page example_state))"
proof -
  have closed: "menu_invariant example_page example_state"
    by (simp add: menu_invariant_def example_page_def example_state_def store_defs)
  from menu_invariant_preserved [OF closed]
  have opened: "menu_invariant example_page (mobileMenuButton_click example_page example_state)"
    by blast
  have expanded: "getAttribute 0 ''aria-expanded''
      (mobileMenuButton_click example_page example_state) = Some ''true''"
    by (simp add: mobileMenuButton_click_def example_page_def example_state_def store_defs
        js_bool_def Let_def)
  have hidden_again: "classList_contains 1 ''hidden''
      (navLink_click example_page 5 (Some 41)
         (mobileMenuButton_click example_page example_state))"
    by (simp add: navLink_click_def mobileMenuButton_click_def example_page_def
        example_state_def store_defs js_bool_def Let_def)
  from closed opened expanded hidden_again
    menu_invariant_preserved [OF opened, of 5 "Some 41"]
  show ?thesis by blast
qed

lemma js_bool_eq_true [simp]: "(js_bool x = ''true'') = x"
  by (simp add: js_bool_def)

lemma mobileMenuButton_click_aria:
  assumes "mobileMenuButton pg = Some b" and "mobileMenu pg = Some m"
  shows "getAttribute b ''aria-expanded'' (mobileMenuButton_click pg s)
    = Some (js_bool (getAttribute b ''aria-expanded'' s \<noteq> Some ''true''))"
  using assms
  by (simp add: mobileMenuButton_click_def store_defs Let_def split: option.splits)

lemma mobileMenuButton_click_hidden:
  assumes "mobileMenuButton pg = Some b" and "mobileMenu pg = Some m"
  shows "classList_contains m ''hidden'' (mobileMenuButton_click pg s)
    = (\<not> classList_contains m ''hidden'' s)"
  using assms
  by (simp add: mobileMenuButton_click_def store_defs Let_def split: option.splits)

lemma mobileMenuButton_click_icon:
  assumes "mobileMenuButton pg = Some b" and "mobileMenu pg = Some m"
    and "menuIcon pg = Some i"
  shows "classList_contains i ''fa-bars'' (mobileMenuButton_click pg s)
      = (getAttribute b ''aria-expanded'' s = Some ''true'')"
    and "classList_contains i ''fa-times'' (mobileMenuButton_click pg s)
      = (getAttribute b ''aria-expanded'' s \<noteq> Some ''true'')"
  using assms
  by (simp_all add: mobileMenuButton_click_def store_defs Let_def)

text \<open>
  C9, as amended. Two clicks on the menu button give back the flag (whether
  \<open>aria-expanded\<close> is \<open>true\<close>) and the presence of \<open>hidden\<close> on the panel, from every
  state; the attribute itself then holds the text of the flag. The two glyph classes of the
  icon come back exactly when the icon agreed with the flag before the clicks.
\<close>

theorem mobileMenuButton_click_twice:
  assumes "mobileMenuButton pg = Some b" and "mobileMenu pg = Some m"
  shows "(getAttribute b ''aria-expanded'' (mobileMenuButton_click pg (mobileMenuButton_click pg s))
            = Some ''true'')
         = (getAttribute b ''aria-expanded'' s = Some ''true'')
    \<and> getAttribute b ''aria-expanded'' (mobileMenuButton_click pg (mobileMenuButton_click pg s))
         = Some (js_bool (getAttribute b ''aria-expanded'' s = Some ''true''))
    \<and> classList_contains m ''hidden'' (mobileMenuButton_click pg (mobileMenuButton_click pg s))
         = classList_contains m ''hidden'' s
    \<and> (\<forall>i. menuIcon pg = Some i \<longrightarrow>
          (classList_contains i ''fa-bars''
               (mobileMenuButton_click pg (mobileMenuButton_click pg s))
             = classList_contains i ''fa-bars'' s
           \<and> classList_contains i ''fa-times''
               (mobileMenuButton_click pg (mobileMenuButton_click pg s))
             = classList_contains i ''fa-times'' s)
          = icon_agrees b i s)"
proof -
  note aria = mobileMenuButton_click_aria [OF assms]
  note hidden = mobileMenuButton_click_hidden [OF assms]
  have icon: "(classList_contains i ''fa-bars''
               (mobileMenuButton_click pg (mobileMenuButton_click pg s))
             = classList_contains i ''fa-bars'' s
           \<and> classList_contains i ''fa-times''
               (mobileMenuButton_click pg (mobileMenuButton_click pg s))
             = classList_contains i ''fa-times'' s)
          = icon_agrees b i s" if "menuIcon pg = Some i" for i
    unfolding mobileMenuButton_click_icon [OF assms that] aria icon_agrees_def
    by auto
  show ?thesis
    using icon by (simp add: aria hidden)
qed

theorem mobileMenuButton_click_twice_witness:
  "mobileMenuButton example_page = Some 0 \<and> mobileMenu example_page = Some 1
   \<and> menuIcon example_page = Some 2 \<and> icon_agrees 0 2 example_state
   \<and> getAttribute 0 ''aria-expanded''
       (mobileMenuButton_click example_page (mobileMenuButton_click example_page example_state))
       = Some ''false''
   \<and> classList_contains 1 ''hidden''
       (mobileMenuButton_click example_page (mobileMenuButton_click example_page example_state))
   \<and> classList_contains 2 ''fa-bars''
       (mobileMenuButton_click example_page (mobileMenuButton_click example_page example_state))
   \<and> \<not> classList_contains 2 ''fa-times''
       (mobileMenuButton_click example_page (mobileMenuButton_click example_page example_state))"
proof -
  have b: "mobileMenuButton example_page = Some 0" and m: "mobileMenu example_page = Some 1"
    and i: "menuIcon example_page = Some 2"
    by (simp_all add: example_page_def)
  have agrees: "icon_agrees 0 2 example_state"
    by (simp add: icon_agrees_def example_state_def store_defs)
  have before: "getAttribute 0 ''aria-expanded'' example_state = Some ''false''"
    "classList_contains 1 ''hidden'' example_state"
    "classList_contains 2 ''fa-bars'' example_state"
    "\<not> classList_contains 2 ''fa-times'' example_state"
    by (simp_all add: example_state_def store_defs)
  from mobileMenuButton_click_twice [OF b m, of example_state] i agrees before b m
  show ?thesis by (simp add: js_bool_def)
qed

text \<open>
  The claim as stated fails where the icon does not agree with the flag: with
  \<open>aria-expanded\<close> equal to \<open>false\<close> and an icon that carries \<open>fa-times\<close>, two clicks leave an
  icon that carries \<open>fa-bars\<close> and not \<open>fa-times\<close>.
\<close>

theorem mobileMenuButton_click_twice_counterexample:
  "classList_contains 2 ''fa-times''
     (example_state\<lparr>classList := (classList example_state)(2 := {''fas'', ''fa-times''})\<rparr>)
   \<and> \<not> classList_contains 2 ''fa-times''
       (mobileMenuButton_click example_page
          (mobileMenuButton_click example_page
             (example_state\<lparr>classList := (classList example_state)(2 := {''fas'', ''fa-times''})\<rparr>)))
   \<and> \<not> classList_contains 2 ''fa-bars''
     (example_state\<lparr>classList := (classList example_state)(2 := {''fas'', ''fa-times''})\<rparr>)
   \<and> classList_contains 2 ''fa-bars''
       (mobileMenuButton_click example_page
          (mobileMenuButton_click example_page
             (example_state\<lparr>classList := (classList example_state)(2 := {''fas'', ''fa-times''})\<rparr>)))"
  by (simp add: mobileMenuButton_click_def example_page_def example_state_def store_defs
      js_bool_def Let_def)

section \<open>The submit handler: validation and the request\<close>

lemma value_of_validateField [simp]: "value_of (snd (validateField f s)) = value_of s"
  by (simp add: validateField_def Let_def split: option.splits prod.splits)

lemma validate_each_verdict:
  "fst (validate_each fs b s) = (b \<and> (\<forall>f \<in> set fs. fst (validateField f s)))"
proof (induction fs arbitrary: b s)
  case Nil
  show ?case by simp
next
  case (Cons f fs)
  obtain ok s1 where v: "validateField f s = (ok, s1)" by (cases "validateField f s")
  then have "value_of s1 = value_of s"
    using value_of_validateField [of f s] by simp
  then have "\<And>g. fst (validateField g s1) = fst (validateField g s)"
    by (simp add: fst_validateField)
  with Cons.IH [of "if \<not> ok then False else b" s1] v show ?case
    by auto
qed

lemma value_of_validate_each [simp]: "value_of (snd (validate_each fs b s)) = value_of s"
proof (induction fs arbitrary: b s)
  case Nil
  show ?case by simp
next
  case (Cons f fs)
  obtain ok s1 where v: "validateField f s = (ok, s1)" by (cases "validateField f s")
  then have "value_of s1 = value_of s"
    using value_of_validateField [of f s] by simp
  with Cons.IH [of "if \<not> ok then False else b" s1] v show ?case
    by simp
qed

lemma textContent_validateField_valid:
  assumes "fst (validateField f s)"
  shows "textContent (snd (validateField f s)) = textContent s"
proof -
  obtain a m where c: "check_field f (value_of s (felem f)) = (a, m)"
    by (cases "check_field f (value_of s (felem f))")
  with assms have "a" by (simp add: fst_validateField)
  with c show ?thesis
    by (simp add: validateField_def Let_def store_defs split: option.splits)
qed

lemma textContent_validate_each_valid:
  "\<forall>f \<in> set fs. fst (validateField f s)
     \<Longrightarrow> textContent (snd (validate_each fs b s)) = textContent s"
proof (induction fs arbitrary: b s)
  case Nil
  show ?case by simp
next
  case (Cons f fs)
  obtain ok s1 where v: "validateField f s = (ok, s1)" by (cases "validateField f s")
  with Cons.prems have ok: "ok" by simp
  from v have vals: "value_of s1 = value_of s"
    using value_of_validateField [of f s] by simp
  from v ok have text_eq: "textContent s1 = textContent s"
    using textContent_validateField_valid [of f s] by simp
  from vals Cons.prems have "\<forall>g \<in> set fs. fst (validateField g s1)"
    by (simp add: fst_validateField)
  from Cons.IH [OF this, of "if \<not> ok then False else b"] v text_eq show ?case
    by simp
qed






lemma submit_start_valid:
  assumes "\<forall>f \<in> set (fieldsToValidate pg). fst (validateField f s)"
    and "submitButton pg = Some button"
  shows "fst (submit_start pg s) =
      Awaiting button (textContent s button)
        \<lparr>url = ''http://127.0.0.1:5001/api/contact'', http_method = ''POST'',
         headers = [(''Content-Type'', ''application/json'')],
         body = fromEntries (formData pg (snd (submit_start pg s)))\<rparr>"
    and "value_of (snd (submit_start pg s)) = value_of s"
proof -
  obtain v s1 where ve: "validate_each (fieldsToValidate pg) True s = (v, s1)"
    by (cases "validate_each (fieldsToValidate pg) True s")
  with assms(1) have v: "v"
    using validate_each_verdict [of "fieldsToValidate pg" True s] by simp
  from ve have vals: "value_of s1 = value_of s"
    using value_of_validate_each [of "fieldsToValidate pg" True s] by simp
  from ve assms(1) have text_eq: "textContent s1 = textContent s"
    using textContent_validate_each_valid [of "fieldsToValidate pg" s True] by simp
  from ve v assms(2) text_eq show "fst (submit_start pg s) =
      Awaiting button (textContent s button)
        \<lparr>url = ''http://127.0.0.1:5001/api/contact'', http_method = ''POST'',
         headers = [(''Content-Type'', ''application/json'')],
         body = fromEntries (formData pg (snd (submit_start pg s)))\<rparr>"
    by (simp add: submit_start_def Let_def)
  from ve v assms(2) vals show "value_of (snd (submit_start pg s)) = value_of s"
    by (simp add: submit_start_def Let_def remove_role_def store_defs split: option.splits)
qed

lemma contactForm_submit_requests:
  "snd (contactForm_submit pg r s) =
     (case fst (submit_start pg s) of
        Invalid \<Rightarrow> []
      | Thrown e \<Rightarrow> []
      | Awaiting button originalButtonText req \<Rightarrow> [req])"
  by (cases "submit_start pg s") (simp add: contactForm_submit_def split: start.splits)


lemma contactForm_submit_sent:
  "\<forall>f \<in> set (fieldsToValidate pg). fst (validateField f s)
     \<Longrightarrow> submitButton pg = Some button
     \<Longrightarrow> snd (contactForm_submit pg r s) \<noteq> []"
  by (simp add: contactForm_submit_requests submit_start_valid(1))




section \<open>The end of a submission\<close>

lemma contactForm_submit_awaiting:
  assumes "\<forall>f \<in> set (fieldsToValidate pg). fst (validateField f s)"
    and "submitButton pg = Some button"
  shows "fst (contactForm_submit pg r s)
    = submit_finish pg button (textContent s button) r (snd (submit_start pg s))"
  using submit_start_valid(1) [OF assms]
  by (cases "submit_start pg s") (simp add: contactForm_submit_def)

lemma on_catch_message:
  "textContent (on_catch pg s) (formMessageElement pg) = msg_connection_error"
  by (simp add: on_catch_def set_role_def store_defs split: option.splits)

lemma on_catch_role:
  "formMessageContainer pg = Some c \<Longrightarrow> getAttribute c ''role'' (on_catch pg s) = Some ''alert''"
  by (simp add: on_catch_def set_role_def store_defs)

lemma on_catch_value_of: "value_of (on_catch pg s) = value_of s"
  by (simp add: on_catch_def set_role_def store_defs split: option.splits)

lemma on_finally_button:
  "disabled (on_finally button t s) button = False"
  "textContent (on_finally button t s) button = t"
  by (simp_all add: on_finally_def store_defs)

lemma on_finally_frame:
  "e \<noteq> button \<Longrightarrow> textContent (on_finally button t s) e = textContent s e"
  "attribute (on_finally button t s) = attribute s"
  "classList (on_finally button t s) = classList s"
  "value_of (on_finally button t s) = value_of s"
  by (simp_all add: on_finally_def store_defs)

lemma submit_finish_catch:
  "r = Rejected \<or> r = Fulfilled ok None \<or> r = Fulfilled ok (Some JNull)
     \<Longrightarrow> submit_finish pg button t r s = on_finally button t (on_catch pg s)"
  by (auto simp: submit_finish_def on_response_def message_of_def)

text \<open>
  What the handler leaves when the promise of \<open>fetch\<close> is rejected, when \<open>json()\<close> rejects,
  and when the body is the JSON value \<open>null\<close>: the \<open>catch\<close> block runs in all three.
\<close>

lemma contactForm_submit_catch:
  assumes valid: "\<forall>f \<in> set (fieldsToValidate pg). fst (validateField f s)"
    and button: "submitButton pg = Some button"
    and r: "r = Rejected \<or> r = Fulfilled ok None \<or> r = Fulfilled ok (Some JNull)"
  shows "button \<noteq> formMessageElement pg \<Longrightarrow>
      textContent (fst (contactForm_submit pg r s)) (formMessageElement pg) = msg_connection_error"
    and "formMessageContainer pg = Some c \<Longrightarrow>
      getAttribute c ''role'' (fst (contactForm_submit pg r s)) = Some ''alert''"
    and "disabled (fst (contactForm_submit pg r s)) button = False"
    and "textContent (fst (contactForm_submit pg r s)) button = textContent s button"
    and "value_of (fst (contactForm_submit pg r s)) = value_of s"
proof -
  define s1 where "s1 = snd (submit_start pg s)"
  have vals: "value_of s1 = value_of s"
    unfolding s1_def by (rule submit_start_valid(2) [OF valid button])
  have fin: "fst (contactForm_submit pg r s)
      = on_finally button (textContent s button) (on_catch pg s1)"
    unfolding s1_def contactForm_submit_awaiting [OF valid button]
    by (rule submit_finish_catch [OF r])
  show "button \<noteq> formMessageElement pg \<Longrightarrow>
      textContent (fst (contactForm_submit pg r s)) (formMessageElement pg) = msg_connection_error"
    unfolding fin using on_finally_frame(1) [of "formMessageElement pg" button] on_catch_message
    by simp
  show "formMessageContainer pg = Some c \<Longrightarrow>
      getAttribute c ''role'' (fst (contactForm_submit pg r s)) = Some ''alert''"
    unfolding fin using on_catch_role [of pg c s1]
    by (simp add: getAttribute_def on_finally_frame)
  show "disabled (fst (contactForm_submit pg r s)) button = False"
    unfolding fin by (rule on_finally_button)
  show "textContent (fst (contactForm_submit pg r s)) button = textContent s button"
    unfolding fin by (rule on_finally_button)
  show "value_of (fst (contactForm_submit pg r s)) = value_of s"
    unfolding fin by (simp add: on_finally_frame on_catch_value_of vals)
qed

lemma clear_error_frame [simp]:
  "textContent (clear_error s f) = textContent s"
  "attribute (clear_error s f) = attribute s"
  "value_of (clear_error s f) = value_of s"
  by (simp_all add: clear_error_def Let_def store_defs split: option.splits)

lemma foldl_clear_error_frame [simp]:
  "textContent (foldl clear_error s fs) = textContent s"
  "attribute (foldl clear_error s fs) = attribute s"
  "value_of (foldl clear_error s fs) = value_of s"
  by (induction fs arbitrary: s) simp_all

lemma clear_error_keeps:
  "''border-red-500'' \<notin> classList s x \<Longrightarrow> ''border-red-500'' \<notin> classList (clear_error s g) x"
  "''hidden'' \<in> classList s e \<Longrightarrow> ''hidden'' \<in> classList (clear_error s g) e"
  by (auto simp: clear_error_def Let_def store_defs split: option.splits)

lemma foldl_clear_error_keeps:
  "''border-red-500'' \<notin> classList s x
     \<Longrightarrow> ''border-red-500'' \<notin> classList (foldl clear_error s fs) x"
  "''hidden'' \<in> classList s e \<Longrightarrow> ''hidden'' \<in> classList (foldl clear_error s fs) e"
  by (induction fs arbitrary: s) (simp_all add: clear_error_keeps)

lemma clear_error_clears:
  "''border-red-500'' \<notin> classList (clear_error s f) (felem f)"
  "errorElement f = Some e \<Longrightarrow> ''hidden'' \<in> classList (clear_error s f) e"
  by (simp_all add: clear_error_def Let_def store_defs split: option.splits)

lemma foldl_clear_error_clears:
  assumes "f \<in> set fs"
  shows "''border-red-500'' \<notin> classList (foldl clear_error s fs) (felem f)"
    and "errorElement f = Some e \<Longrightarrow> ''hidden'' \<in> classList (foldl clear_error s fs) e"
proof -
  from assms obtain xs ys where fs: "fs = xs @ f # ys"
    by (auto dest: split_list)
  show "''border-red-500'' \<notin> classList (foldl clear_error s fs) (felem f)"
    unfolding fs by (simp add: foldl_clear_error_keeps clear_error_clears)
  show "errorElement f = Some e \<Longrightarrow> ''hidden'' \<in> classList (foldl clear_error s fs) e"
    unfolding fs by (simp add: foldl_clear_error_keeps clear_error_clears)
qed

lemma foldl_reset_frame:
  "textContent (foldl (\<lambda>s f. s\<lparr>value_of := (value_of s)(felem f := defaultValue f)\<rparr>) s fs)
     = textContent s"
  "attribute (foldl (\<lambda>s f. s\<lparr>value_of := (value_of s)(felem f := defaultValue f)\<rparr>) s fs)
     = attribute s"
  "classList (foldl (\<lambda>s f. s\<lparr>value_of := (value_of s)(felem f := defaultValue f)\<rparr>) s fs)
     = classList s"
  by (induction fs arbitrary: s) simp_all

lemma form_reset_frame [simp]:
  "textContent (form_reset pg s) = textContent s"
  "attribute (form_reset pg s) = attribute s"
  "classList (form_reset pg s) = classList s"
  by (simp_all add: form_reset_def foldl_reset_frame)

lemma foldl_reset_value:
  "distinct (map felem fs) \<Longrightarrow> f \<in> set fs
     \<Longrightarrow> value_of (foldl (\<lambda>s f. s\<lparr>value_of := (value_of s)(felem f := defaultValue f)\<rparr>) s fs)
           (felem f) = defaultValue f"
proof (induction fs arbitrary: s rule: rev_induct)
  case Nil
  then show ?case by simp
next
  case (snoc g gs)
  show ?case
  proof (cases "f = g")
    case True
    then show ?thesis by simp
  next
    case False
    with snoc.prems have "f \<in> set gs" "felem f \<noteq> felem g" "distinct (map felem gs)"
      by (auto simp: image_iff)
    with snoc.IH [of s] show ?thesis by simp
  qed
qed

lemma form_reset_value:
  "distinct (map felem (formFields pg)) \<Longrightarrow> f \<in> set (formFields pg)
     \<Longrightarrow> value_of (form_reset pg s) (felem f) = defaultValue f"
  by (simp add: form_reset_def foldl_reset_value)

lemma on_response_result:
  assumes "message_of result = Inr m" and "\<not> message_throws m"
  shows "on_response pg True (Some result) s =
      Inr (foldl clear_error
             (form_reset pg
                (set_role pg ''status''
                   (set_className (formMessageElement pg) class_success
                      (set_textContent (formMessageElement pg)
                         (message_or m msg_success_default) s))))
             (fieldsToValidate pg))"
    and "on_response pg False (Some result) s =
      Inr (set_role pg ''alert''
             (set_className (formMessageElement pg) class_error
                (set_textContent (formMessageElement pg)
                   (message_or m msg_failure_default) s)))"
  using assms by (simp_all add: on_response_def Let_def)


lemma set_role_frame [simp]:
  "textContent (set_role pg r s) = textContent s"
  "classList (set_role pg r s) = classList s"
  "value_of (set_role pg r s) = value_of s"
  by (simp_all add: set_role_def store_defs split: option.splits)

lemma set_role_role:
  "formMessageContainer pg = Some c \<Longrightarrow> attribute (set_role pg r s) c ''role'' = Some r"
  by (simp add: set_role_def store_defs)

text \<open>
  What the handler leaves after a response with \<open>ok\<close> whose body is a JSON value other than
  \<open>null\<close>, with a message that can be shown: the message of the server, or the default text
  when the body has no message or a falsy one; the role \<open>status\<close>; the default value in
  every control; no error mark on a validated field.
\<close>

lemma contactForm_submit_success:
  assumes valid: "\<forall>f \<in> set (fieldsToValidate pg). fst (validateField f s)"
    and button: "submitButton pg = Some button"
    and m: "message_of result = Inr m" and shown: "\<not> message_throws m"
  shows "button \<noteq> formMessageElement pg \<Longrightarrow>
      textContent (fst (contactForm_submit pg (Fulfilled True (Some result)) s))
        (formMessageElement pg) = message_or m msg_success_default"
    and "formMessageContainer pg = Some c \<Longrightarrow>
      getAttribute c ''role'' (fst (contactForm_submit pg (Fulfilled True (Some result)) s))
        = Some ''status''"
    and "distinct (map felem (formFields pg)) \<Longrightarrow> f \<in> set (formFields pg) \<Longrightarrow>
      value_of (fst (contactForm_submit pg (Fulfilled True (Some result)) s)) (felem f)
        = defaultValue f"
    and "g \<in> set (fieldsToValidate pg) \<Longrightarrow>
      ''border-red-500''
        \<notin> classList (fst (contactForm_submit pg (Fulfilled True (Some result)) s)) (felem g)"
    and "g \<in> set (fieldsToValidate pg) \<Longrightarrow> errorElement g = Some e \<Longrightarrow>
      ''hidden'' \<in> classList (fst (contactForm_submit pg (Fulfilled True (Some result)) s)) e"
proof -
  define s1 where "s1 = snd (submit_start pg s)"
  define s2 where "s2 = form_reset pg
      (set_role pg ''status''
         (set_className (formMessageElement pg) class_success
            (set_textContent (formMessageElement pg) (message_or m msg_success_default) s1)))"
  have fin: "fst (contactForm_submit pg (Fulfilled True (Some result)) s)
      = on_finally button (textContent s button)
          (foldl clear_error s2 (fieldsToValidate pg))"
    unfolding contactForm_submit_awaiting [OF valid button]
    using on_response_result(1) [OF m shown, of pg s1]
    by (simp add: submit_finish_def s1_def s2_def)
  show "button \<noteq> formMessageElement pg \<Longrightarrow>
      textContent (fst (contactForm_submit pg (Fulfilled True (Some result)) s))
        (formMessageElement pg) = message_or m msg_success_default"
    unfolding fin using on_finally_frame(1) [of "formMessageElement pg" button]
    by (simp add: s2_def store_defs)
  show "formMessageContainer pg = Some c \<Longrightarrow>
      getAttribute c ''role'' (fst (contactForm_submit pg (Fulfilled True (Some result)) s))
        = Some ''status''"
    unfolding fin by (simp add: getAttribute_def on_finally_frame s2_def set_role_role)
  show "distinct (map felem (formFields pg)) \<Longrightarrow> f \<in> set (formFields pg) \<Longrightarrow>
      value_of (fst (contactForm_submit pg (Fulfilled True (Some result)) s)) (felem f)
        = defaultValue f"
    unfolding fin by (simp add: on_finally_frame s2_def form_reset_value)
  show "g \<in> set (fieldsToValidate pg) \<Longrightarrow>
      ''border-red-500''
        \<notin> classList (fst (contactForm_submit pg (Fulfilled True (Some result)) s)) (felem g)"
    unfolding fin by (simp add: on_finally_frame foldl_clear_error_clears)
  show "g \<in> set (fieldsToValidate pg) \<Longrightarrow> errorElement g = Some e \<Longrightarrow>
      ''hidden'' \<in> classList (fst (contactForm_submit pg (Fulfilled True (Some result)) s)) e"
    unfolding fin by (simp add: on_finally_frame foldl_clear_error_clears)
qed

text \<open>
  What the handler leaves after a response without \<open>ok\<close> whose body is a JSON value other
  than \<open>null\<close>, with a message that can be shown: the message of the server or the default
  text, the role \<open>alert\<close>, and the values of the controls as they were.
\<close>

lemma contactForm_submit_failure:
  assumes valid: "\<forall>f \<in> set (fieldsToValidate pg). fst (validateField f s)"
    and button: "submitButton pg = Some button"
    and m: "message_of result = Inr m" and shown: "\<not> message_throws m"
  shows "button \<noteq> formMessageElement pg \<Longrightarrow>
      textContent (fst (contactForm_submit pg (Fulfilled False (Some result)) s))
        (formMessageElement pg) = message_or m msg_failure_default"
    and "formMessageContainer pg = Some c \<Longrightarrow>
      getAttribute c ''role'' (fst (contactForm_submit pg (Fulfilled False (Some result)) s))
        = Some ''alert''"
    and "value_of (fst (contactForm_submit pg (Fulfilled False (Some result)) s)) = value_of s"
proof -
  define s1 where "s1 = snd (submit_start pg s)"
  have vals: "value_of s1 = value_of s"
    unfolding s1_def by (rule submit_start_valid(2) [OF valid button])
  have fin: "fst (contactForm_submit pg (Fulfilled False (Some result)) s)
      = on_finally button (textContent s button)
          (set_role pg ''alert''
             (set_className (formMessageElement pg) class_error
                (set_textContent (formMessageElement pg)
                   (message_or m msg_failure_default) s1)))"
    unfolding contactForm_submit_awaiting [OF valid button]
    using on_response_result(2) [OF m shown, of pg s1]
    by (simp add: submit_finish_def s1_def)
  show "button \<noteq> formMessageElement pg \<Longrightarrow>
      textContent (fst (contactForm_submit pg (Fulfilled False (Some result)) s))
        (formMessageElement pg) = message_or m msg_failure_default"
    unfolding fin using on_finally_frame(1) [of "formMessageElement pg" button]
    by (simp add: store_defs)
  show "formMessageContainer pg = Some c \<Longrightarrow>
      getAttribute c ''role'' (fst (contactForm_submit pg (Fulfilled False (Some result)) s))
        = Some ''alert''"
    unfolding fin by (simp add: getAttribute_def on_finally_frame set_role_role)
  show "value_of (fst (contactForm_submit pg (Fulfilled False (Some result)) s)) = value_of s"
    unfolding fin by (simp add: on_finally_frame vals store_defs)
qed

section \<open>The example page: responses\<close>

lemma example_state_valid:
  "\<forall>f \<in> set (fieldsToValidate example_page). fst (validateField f example_state)"
proof -
  have "fieldsToValidate example_page = [field_nombre, field_email, field_mensaje]"
    by (simp add: fieldsToValidate_def example_page_def field_nombre_def field_email_def
        field_telefono_def field_mensaje_def)
  moreover have "fst (validateField field_nombre example_state)"
    "fst (validateField field_email example_state)"
    "fst (validateField field_mensaje example_state)"
    by (simp_all add: fst_validateField check_field_def field_nombre_def field_email_def
        field_mensaje_def example_state_def js_def trim_def is_space_def email_pattern_def)
  ultimately show ?thesis by simp
qed

lemma example_page_elements:
  "formMessageElement example_page = 31" "submitButton example_page = Some 32"
  "formMessageContainer example_page = Some 30"
  "32 \<noteq> formMessageElement example_page"
  by (simp_all add: example_page_def)

lemma messages_differ:
  "msg_connection_error \<noteq> msg_success_default" "msg_connection_error \<noteq> msg_failure_default"
  by (simp_all add: msg_connection_error_def msg_success_default_def msg_failure_default_def
      js_def)

text \<open>
  The examples of the specification: a response with \<open>ok\<close> and the body
  \<^verbatim>\<open>{"message":"OK"}\<close> shows \<open>OK\<close> and empties the fields; a response without \<open>ok\<close> and the
  body \<^verbatim>\<open>{"message":"Bad input"}\<close> shows \<open>Bad input\<close> and keeps the values.
\<close>

lemma example_success_message:
  "textContent
     (fst (contactForm_submit example_page
        (Fulfilled True (Some (JObj [(js ''message'', JStr (js ''OK''))]))) example_state)) 31
   = js ''OK''"
  "getAttribute 30 ''role''
     (fst (contactForm_submit example_page
        (Fulfilled True (Some (JObj [(js ''message'', JStr (js ''OK''))]))) example_state))
   = Some ''status''"
  "value_of
     (fst (contactForm_submit example_page
        (Fulfilled True (Some (JObj [(js ''message'', JStr (js ''OK''))]))) example_state)) 10
   = []"
proof -
  have m: "message_of (JObj [(js ''message'', JStr (js ''OK''))]) = Inr (Some (JStr (js ''OK'')))"
    by (simp add: message_of_def)
  have ok: "message_or (Some (JStr (js ''OK''))) msg_success_default = js ''OK''"
    by (simp add: message_or_def js_def)
  have shown: "\<not> message_throws (Some (JStr (js ''OK'')))"
    by (simp add: message_throws_def)
  note facts = contactForm_submit_success [OF example_state_valid example_page_elements(2) m shown]
  show "textContent
     (fst (contactForm_submit example_page
        (Fulfilled True (Some (JObj [(js ''message'', JStr (js ''OK''))]))) example_state)) 31
   = js ''OK''"
    using facts(1) [OF example_page_elements(4)] ok by (simp add: example_page_elements)
  show "getAttribute 30 ''role''
     (fst (contactForm_submit example_page
        (Fulfilled True (Some (JObj [(js ''message'', JStr (js ''OK''))]))) example_state))
   = Some ''status''"
    by (rule facts(2) [OF example_page_elements(3)])
  have "distinct (map felem (formFields example_page))"
    "field_nombre \<in> set (formFields example_page)"
    by (simp_all add: example_page_def field_nombre_def field_email_def field_telefono_def
        field_mensaje_def)
  from facts(3) [OF this]
  show "value_of
     (fst (contactForm_submit example_page
        (Fulfilled True (Some (JObj [(js ''message'', JStr (js ''OK''))]))) example_state)) 10
   = []"
    by (simp add: field_nombre_def)
qed

lemma example_failure_message:
  "textContent
     (fst (contactForm_submit example_page
        (Fulfilled False (Some (JObj [(js ''message'', JStr (js ''Bad input''))])))
        example_state)) 31
   = js ''Bad input''"
  "getAttribute 30 ''role''
     (fst (contactForm_submit example_page
        (Fulfilled False (Some (JObj [(js ''message'', JStr (js ''Bad input''))])))
        example_state))
   = Some ''alert''"
  "value_of
     (fst (contactForm_submit example_page
        (Fulfilled False (Some (JObj [(js ''message'', JStr (js ''Bad input''))])))
        example_state))
   = value_of example_state"
proof -
  have m: "message_of (JObj [(js ''message'', JStr (js ''Bad input''))])
      = Inr (Some (JStr (js ''Bad input'')))"
    by (simp add: message_of_def)
  have bad: "message_or (Some (JStr (js ''Bad input''))) msg_failure_default = js ''Bad input''"
    by (simp add: message_or_def js_def)
  have shown: "\<not> message_throws (Some (JStr (js ''Bad input'')))"
    by (simp add: message_throws_def)
  note facts = contactForm_submit_failure [OF example_state_valid example_page_elements(2) m shown]
  show "textContent
     (fst (contactForm_submit example_page
        (Fulfilled False (Some (JObj [(js ''message'', JStr (js ''Bad input''))])))
        example_state)) 31
   = js ''Bad input''"
    using facts(1) [OF example_page_elements(4)] bad by (simp add: example_page_elements)
  show "getAttribute 30 ''role''
     (fst (contactForm_submit example_page
        (Fulfilled False (Some (JObj [(js ''message'', JStr (js ''Bad input''))])))
        example_state))
   = Some ''alert''"
    by (rule facts(2) [OF example_page_elements(3)])
  show "value_of
     (fst (contactForm_submit example_page
        (Fulfilled False (Some (JObj [(js ''message'', JStr (js ''Bad input''))])))
        example_state))
   = value_of example_state"
    by (rule facts(3))
qed

text \<open>
  C3. The claim holds for a rejected request (lemma \<open>contactForm_submit_catch\<close>) and fails
  for a response that arrives: when the body of the response is not JSON, or is the JSON
  value \<open>null\<close>, the handler shows the connection-error text with the role \<open>alert\<close>, whether
  the response has \<open>ok\<close> or not.
\<close>

theorem connection_error_after_response:
  "snd (contactForm_submit example_page (Fulfilled False None) example_state) \<noteq> []
   \<and> textContent (fst (contactForm_submit example_page (Fulfilled False None) example_state)) 31
       = msg_connection_error
   \<and> getAttribute 30 ''role''
         (fst (contactForm_submit example_page (Fulfilled False None) example_state))
       = Some ''alert''
   \<and> textContent
         (fst (contactForm_submit example_page (Fulfilled True (Some JNull)) example_state)) 31
       = msg_connection_error"
proof -
  have sent: "snd (contactForm_submit example_page (Fulfilled False None) example_state) \<noteq> []"
    using example_state_valid example_page_elements(2) by (rule contactForm_submit_sent)
  have r1: "Fulfilled False None = Rejected \<or> Fulfilled False None = Fulfilled False None
      \<or> Fulfilled False None = Fulfilled False (Some JNull)"
    by simp
  have r2: "Fulfilled True (Some JNull) = Rejected
      \<or> Fulfilled True (Some JNull) = Fulfilled True None
      \<or> Fulfilled True (Some JNull) = Fulfilled True (Some JNull)"
    by simp
  note a = contactForm_submit_catch [OF example_state_valid example_page_elements(2) r1]
  note b = contactForm_submit_catch [OF example_state_valid example_page_elements(2) r2]
  from sent a(1) [OF example_page_elements(4)] a(2) [OF example_page_elements(3)]
    b(1) [OF example_page_elements(4)]
  show ?thesis by (simp add: example_page_elements)
qed

text \<open>
  C4. A response with \<open>ok\<close> whose body is not JSON (an empty body, for instance) does not
  give the success banner: the handler shows the connection-error text, which is not the
  default success text, sets the role \<open>alert\<close>, and leaves the entered values in the fields.
\<close>

theorem success_response_without_json:
  "textContent (fst (contactForm_submit example_page (Fulfilled True None) example_state)) 31
     = msg_connection_error
   \<and> msg_connection_error \<noteq> msg_success_default
   \<and> getAttribute 30 ''role''
         (fst (contactForm_submit example_page (Fulfilled True None) example_state))
       = Some ''alert''
   \<and> value_of (fst (contactForm_submit example_page (Fulfilled True None) example_state)) 10
       = js ''Ana''
   \<and> defaultValue field_nombre = []"
proof -
  have r: "Fulfilled True None = Rejected \<or> Fulfilled True None = Fulfilled True None
      \<or> Fulfilled True None = Fulfilled True (Some JNull)"
    by simp
  note a = contactForm_submit_catch [OF example_state_valid example_page_elements(2) r]
  have "value_of example_state 10 = js ''Ana''" "defaultValue field_nombre = []"
    by (simp_all add: example_state_def field_nombre_def)
  with a(1) [OF example_page_elements(4)] a(2) [OF example_page_elements(3)] a(5)
    messages_differ(1)
  show ?thesis by (simp add: example_page_elements)
qed

text \<open>
  C5. A response without \<open>ok\<close> whose body is not JSON (the HTML page of a server error, for
  instance) does not give the failure banner with the default text: the handler shows the
  connection-error text.
\<close>

theorem failure_response_without_json:
  "textContent (fst (contactForm_submit example_page (Fulfilled False None) example_state)) 31
     = msg_connection_error
   \<and> msg_connection_error \<noteq> msg_failure_default
   \<and> message_or None msg_failure_default = msg_failure_default"
proof -
  have r: "Fulfilled False None = Rejected \<or> Fulfilled False None = Fulfilled False None
      \<or> Fulfilled False None = Fulfilled False (Some JNull)"
    by simp
  note a = contactForm_submit_catch [OF example_state_valid example_page_elements(2) r]
  from a(1) [OF example_page_elements(4)] messages_differ(2)
  show ?thesis by (simp add: example_page_elements message_or_def)
qed

section \<open>The active link\<close>

lemma foldl_last_match:
  "foldl (\<lambda>cur sec. if P sec then section_id sec else cur) a xs
     = (if filter P xs = [] then a else section_id (last (filter P xs)))"
  by (induction xs arbitrary: a) simp_all

lemma detect_section_reached:
  "detect_section pg scrollPosition =
     (if reached_sections pg scrollPosition = [] then ''''
      else section_id (last (reached_sections pg scrollPosition)))"
  unfolding detect_section_def reached_sections_def sectionTop_def
  by (rule foldl_last_match)

lemma mark_link_attribute [simp]: "attribute (mark_link c s l) = attribute s"
  by (simp add: mark_link_def Let_def store_defs)

lemma mark_link_classList:
  "(''nav-link-active'' \<in> classList (mark_link c s l) x)
     = (if x = l then attribute s l ''href'' = Some (''#'' @ c)
        else ''nav-link-active'' \<in> classList s x)"
  by (simp add: mark_link_def Let_def store_defs)

lemma foldl_mark_link_attribute [simp]: "attribute (foldl (mark_link c) s ls) = attribute s"
  by (induction ls arbitrary: s) simp_all

lemma foldl_mark_link_classList:
  "(''nav-link-active'' \<in> classList (foldl (mark_link c) s ls) x)
     = (if x \<in> set ls then attribute s x ''href'' = Some (''#'' @ c)
        else ''nav-link-active'' \<in> classList s x)"
proof (induction ls arbitrary: s)
  case Nil
  show ?case by simp
next
  case (Cons l ls)
  from Cons.IH [of "mark_link c s l"] show ?case
    by (simp add: mark_link_classList)
qed

lemma updateActiveState_link:
  "link \<in> set (desktopMenuLinks pg @ mobileMenuLinks pg) \<Longrightarrow>
     (''nav-link-active'' \<in> classList (updateActiveState pg scrollPosition s) link)
       = (getAttribute link ''href'' s = Some (''#'' @ current_section pg scrollPosition))"
  by (auto simp: updateActiveState_def foldl_mark_link_classList getAttribute_def)

lemma current_section_cases:
  "current_section pg scrollPosition =
     (if reached_sections pg scrollPosition \<noteq> []
         \<and> section_id (last (reached_sections pg scrollPosition)) \<noteq> ''''
      then section_id (last (reached_sections pg scrollPosition))
      else if (\<exists>first rest. sectionsForNavHighlight pg = first # rest
                 \<and> section_id first = ''inicio''
                 \<and> scrollPosition < real_of_int (offsetTop first))
      then ''inicio'' else '''')"
  by (cases "sectionsForNavHighlight pg")
    (auto simp: current_section_def detect_section_reached Let_def)

text \<open>
  C7, as amended. After a run of \<open>updateActiveState\<close>, a link of the desktop or the mobile
  menu carries \<open>nav-link-active\<close> exactly when its \<open>href\<close> is \<open>#\<close> followed by the current
  identifier; every other link of the two menus has lost the class. The current identifier
  is that of the last section, in document order, whose adjusted top (\<open>offsetTop\<close> minus the
  height of the navigation bar minus 60) the scroll position has reached. When there is no
  such identifier (no section is reached, or the identifier is empty), it is \<open>inicio\<close> if
  the first section has the identifier \<open>inicio\<close> and the scroll position is above its top;
  otherwise it is empty, and the links marked are those whose \<open>href\<close> is \<open>#\<close> alone.
\<close>

theorem updateActiveState_marks:
  assumes "link \<in> set (desktopMenuLinks pg @ mobileMenuLinks pg)"
  shows "(reached_sections pg scrollPosition \<noteq> []
          \<and> section_id (last (reached_sections pg scrollPosition)) \<noteq> '''' \<longrightarrow>
            (''nav-link-active'' \<in> classList (updateActiveState pg scrollPosition s) link)
              = (getAttribute link ''href'' s
                  = Some (''#'' @ section_id (last (reached_sections pg scrollPosition)))))
    \<and> (\<not> (reached_sections pg scrollPosition \<noteq> []
             \<and> section_id (last (reached_sections pg scrollPosition)) \<noteq> '''')
          \<and> (\<exists>first rest. sectionsForNavHighlight pg = first # rest
                \<and> section_id first = ''inicio''
                \<and> scrollPosition < real_of_int (offsetTop first)) \<longrightarrow>
            (''nav-link-active'' \<in> classList (updateActiveState pg scrollPosition s) link)
              = (getAttribute link ''href'' s = Some ''#inicio''))
    \<and> (\<not> (reached_sections pg scrollPosition \<noteq> []
             \<and> section_id (last (reached_sections pg scrollPosition)) \<noteq> '''')
          \<and> \<not> (\<exists>first rest. sectionsForNavHighlight pg = first # rest
                  \<and> section_id first = ''inicio''
                  \<and> scrollPosition < real_of_int (offsetTop first)) \<longrightarrow>
            (''nav-link-active'' \<in> classList (updateActiveState pg scrollPosition s) link)
              = (getAttribute link ''href'' s = Some ''#''))"
proof (intro conjI impI)
  assume "reached_sections pg scrollPosition \<noteq> []
    \<and> section_id (last (reached_sections pg scrollPosition)) \<noteq> ''''"
  then have "current_section pg scrollPosition
      = section_id (last (reached_sections pg scrollPosition))"
    by (simp add: current_section_cases)
  with updateActiveState_link [OF assms, of scrollPosition s]
  show "(''nav-link-active'' \<in> classList (updateActiveState pg scrollPosition s) link)
      = (getAttribute link ''href'' s
          = Some (''#'' @ section_id (last (reached_sections pg scrollPosition))))"
    by simp
next
  assume "\<not> (reached_sections pg scrollPosition \<noteq> []
        \<and> section_id (last (reached_sections pg scrollPosition)) \<noteq> '''')
    \<and> (\<exists>first rest. sectionsForNavHighlight pg = first # rest
          \<and> section_id first = ''inicio''
          \<and> scrollPosition < real_of_int (offsetTop first))"
  then have "current_section pg scrollPosition = ''inicio''"
    by (simp only: current_section_cases if_True if_False)
  with updateActiveState_link [OF assms, of scrollPosition s]
  show "(''nav-link-active'' \<in> classList (updateActiveState pg scrollPosition s) link)
      = (getAttribute link ''href'' s = Some ''#inicio'')"
    by simp
next
  assume "\<not> (reached_sections pg scrollPosition \<noteq> []
        \<and> section_id (last (reached_sections pg scrollPosition)) \<noteq> '''')
    \<and> \<not> (\<exists>first rest. sectionsForNavHighlight pg = first # rest
            \<and> section_id first = ''inicio''
            \<and> scrollPosition < real_of_int (offsetTop first))"
  then have "current_section pg scrollPosition = ''''"
    by (simp only: current_section_cases if_True if_False)
  with updateActiveState_link [OF assms, of scrollPosition s]
  show "(''nav-link-active'' \<in> classList (updateActiveState pg scrollPosition s) link)
      = (getAttribute link ''href'' s = Some ''#'')"
    by simp
qed

theorem updateActiveState_marks_witness:
  "4 \<in> set (desktopMenuLinks example_page @ mobileMenuLinks example_page)
   \<and> 3 \<in> set (desktopMenuLinks example_page @ mobileMenuLinks example_page)
   \<and> section_id (last (reached_sections example_page 1000)) = ''contacto''
   \<and> ''nav-link-active'' \<in> classList (updateActiveState example_page 1000 example_state) 4
   \<and> ''nav-link-active'' \<notin> classList (updateActiveState example_page 1000 example_state) 3
   \<and> reached_sections example_page 0 = []
   \<and> ''nav-link-active'' \<in> classList (updateActiveState example_page 0 example_state) 3
   \<and> ''nav-link-active'' \<notin> classList (updateActiveState example_page 0 example_state) 4
   \<and> ''nav-link-active''
       \<notin> classList
           (updateActiveState
              (example_page\<lparr>sectionsForNavHighlight :=
                 [\<lparr>section_id = ''servicios'', offsetTop = 200\<rparr>]\<rparr>) 0 example_state) 3"
proof -
  have links: "4 \<in> set (desktopMenuLinks example_page @ mobileMenuLinks example_page)"
    "3 \<in> set (desktopMenuLinks example_page @ mobileMenuLinks example_page)"
    by (simp_all add: example_page_def)
  have far: "reached_sections example_page 1000
      = [\<lparr>section_id = ''inicio'', offsetTop = 200\<rparr>,
         \<lparr>section_id = ''contacto'', offsetTop = 900\<rparr>]"
    by (simp add: reached_sections_def example_page_def)
  then have reached: "reached_sections example_page 1000 \<noteq> []
      \<and> section_id (last (reached_sections example_page 1000)) \<noteq> ''''"
    and contacto: "section_id (last (reached_sections example_page 1000)) = ''contacto''"
    by simp_all
  have top: "reached_sections example_page 0 = []"
    by (simp add: reached_sections_def example_page_def)
  have "sectionsForNavHighlight example_page
      = \<lparr>section_id = ''inicio'', offsetTop = 200\<rparr>
        # [\<lparr>section_id = ''contacto'', offsetTop = 900\<rparr>]"
    by (simp add: example_page_def)
  then have "\<exists>first rest. sectionsForNavHighlight example_page = first # rest
      \<and> section_id first = ''inicio'' \<and> (0::real) < real_of_int (offsetTop first)"
    by simp
  with top have fallback: "\<not> (reached_sections example_page 0 \<noteq> []
        \<and> section_id (last (reached_sections example_page 0)) \<noteq> '''')
      \<and> (\<exists>first rest. sectionsForNavHighlight example_page = first # rest
            \<and> section_id first = ''inicio'' \<and> (0::real) < real_of_int (offsetTop first))"
    by blast
  let ?bare = "example_page\<lparr>sectionsForNavHighlight :=
      [\<lparr>section_id = ''servicios'', offsetTop = 200\<rparr>]\<rparr>"
  have bare_links: "3 \<in> set (desktopMenuLinks ?bare @ mobileMenuLinks ?bare)"
    by (simp add: example_page_def)
  have neither: "\<not> (reached_sections ?bare 0 \<noteq> []
        \<and> section_id (last (reached_sections ?bare 0)) \<noteq> '''')
      \<and> \<not> (\<exists>first rest. sectionsForNavHighlight ?bare = first # rest
              \<and> section_id first = ''inicio'' \<and> (0::real) < real_of_int (offsetTop first))"
    by (simp add: reached_sections_def example_page_def)
  have href: "getAttribute 4 ''href'' example_state = Some ''#contacto''"
    "getAttribute 3 ''href'' example_state = Some ''#inicio''"
    by (simp_all add: getAttribute_def example_state_def)
  from updateActiveState_marks [OF links(1), of 1000 example_state,
      THEN conjunct1, THEN mp, OF reached] href contacto
  have a: "''nav-link-active'' \<in> classList (updateActiveState example_page 1000 example_state) 4"
    by simp
  from updateActiveState_marks [OF links(2), of 1000 example_state,
      THEN conjunct1, THEN mp, OF reached] href contacto
  have b: "''nav-link-active'' \<notin> classList (updateActiveState example_page 1000 example_state) 3"
    by simp
  from updateActiveState_marks [OF links(2), of 0 example_state,
      THEN conjunct2, THEN conjunct1, THEN mp, OF fallback] href
  have c: "''nav-link-active'' \<in> classList (updateActiveState example_page 0 example_state) 3"
    by simp
  from updateActiveState_marks [OF links(1), of 0 example_state,
      THEN conjunct2, THEN conjunct1, THEN mp, OF fallback] href
  have d: "''nav-link-active'' \<notin> classList (updateActiveState example_page 0 example_state) 4"
    by simp
  from updateActiveState_marks [OF bare_links, of 0 example_state,
      THEN conjunct2, THEN conjunct2, THEN mp, OF neither] href
  have e: "''nav-link-active'' \<notin> classList (updateActiveState ?bare 0 example_state) 3"
    by simp
  from links contacto a b top c d e show ?thesis by blast
qed

text \<open>
  The claim as stated fails for a run in which no section is reached and the first section
  is not \<open>inicio\<close>: a link whose \<open>href\<close> is \<open>#\<close>, which is the link of no section, did not
  carry the class before the run and carries it afterwards.
\<close>

theorem updateActiveState_marks_counterexample:
  "3 \<in> set (desktopMenuLinks example_page @ mobileMenuLinks example_page)
   \<and> getAttribute 3 ''href''
        (example_state\<lparr>attribute := (attribute example_state)(3 := [''href'' \<mapsto> ''#''])\<rparr>)
       = Some ''#''
   \<and> map section_id
        (sectionsForNavHighlight
           (example_page\<lparr>sectionsForNavHighlight :=
              [\<lparr>section_id = ''servicios'', offsetTop = 200\<rparr>,
               \<lparr>section_id = ''contacto'', offsetTop = 900\<rparr>]\<rparr>))
       = [''servicios'', ''contacto'']
   \<and> reached_sections
        (example_page\<lparr>sectionsForNavHighlight :=
           [\<lparr>section_id = ''servicios'', offsetTop = 200\<rparr>,
            \<lparr>section_id = ''contacto'', offsetTop = 900\<rparr>]\<rparr>) 0 = []
   \<and> ''nav-link-active''
       \<notin> classList
           (example_state\<lparr>attribute := (attribute example_state)(3 := [''href'' \<mapsto> ''#''])\<rparr>) 3
   \<and> ''nav-link-active''
       \<in> classList
           (updateActiveState
              (example_page\<lparr>sectionsForNavHighlight :=
                 [\<lparr>section_id = ''servicios'', offsetTop = 200\<rparr>,
                  \<lparr>section_id = ''contacto'', offsetTop = 900\<rparr>]\<rparr>) 0
              (example_state\<lparr>attribute := (attribute example_state)(3 := [''href'' \<mapsto> ''#''])\<rparr>))
           3"
proof -
  let ?pg = "example_page\<lparr>sectionsForNavHighlight :=
      [\<lparr>section_id = ''servicios'', offsetTop = 200\<rparr>,
       \<lparr>section_id = ''contacto'', offsetTop = 900\<rparr>]\<rparr>"
  let ?s = "example_state\<lparr>attribute := (attribute example_state)(3 := [''href'' \<mapsto> ''#''])\<rparr>"
  have link: "3 \<in> set (desktopMenuLinks example_page @ mobileMenuLinks example_page)"
    by (simp add: example_page_def)
  then have link': "3 \<in> set (desktopMenuLinks ?pg @ mobileMenuLinks ?pg)"
    by simp
  have href: "getAttribute 3 ''href'' ?s = Some ''#''"
    by (simp add: getAttribute_def)
  have ids: "map section_id (sectionsForNavHighlight ?pg) = [''servicios'', ''contacto'']"
    by simp
  have none: "reached_sections ?pg 0 = []"
    by (simp add: reached_sections_def example_page_def)
  have before: "''nav-link-active'' \<notin> classList ?s 3"
    by (simp add: example_state_def)
  from none have "current_section ?pg 0 = ''''"
    by (simp add: current_section_cases)
  with updateActiveState_link [OF link', of 0 ?s] href
  have after: "''nav-link-active'' \<in> classList (updateActiveState ?pg 0 ?s) 3"
    by simp
  from link href ids none before after show ?thesis by blast
qed

section \<open>The fade-in sections\<close>

lemma keeps_visible_refl [simp]: "keeps_visible e s s"
  by (simp add: keeps_visible_def)







lemma keeps_visible_set_role: "keeps_visible e s (set_role pg r s)"
  by (simp add: keeps_visible_def set_role_def store_defs split: option.splits)

lemma keeps_visible_remove_role: "keeps_visible e s (remove_role pg s)"
  by (simp add: keeps_visible_def remove_role_def store_defs split: option.splits)

lemma keeps_visible_set_className:
  "e \<noteq> x \<Longrightarrow> keeps_visible e s (set_className x cs s)"
  by (simp add: keeps_visible_def store_defs)

lemma keeps_visible_set_textContent: "keeps_visible e s (set_textContent x t s)"
  by (simp add: keeps_visible_def store_defs)

lemma keeps_visible_set_disabled: "keeps_visible e s (set_disabled x b s)"
  by (simp add: keeps_visible_def store_defs)





























end
